theory Spec2Isabelle
  imports Complex_Main
begin

section \<open>Data model of \<^verbatim>\<open>main.py\<close>\<close>

text \<open>
  The service keeps five tables; the four that the cart, catalog and checkout routes read
  and write are modelled here (the \<^verbatim>\<open>users\<close> table is only consulted by the
  authentication dependency, so a route receives the id of the authenticated caller).
  A table is the list of its rows in insertion order. The \<^verbatim>\<open>created_at\<close> columns are
  left out: no modelled route reads them.

  \<^verbatim>\<open>Float\<close> columns (\<^verbatim>\<open>price\<close>, \<^verbatim>\<open>unit_price\<close>, \<^verbatim>\<open>subtotal\<close>,
  \<^verbatim>\<open>total_amount\<close>) have the open type \<open>'p\<close>. The three float operations the routes
  use are passed as a record, so every result holds for whatever arithmetic implements
  them: the literal \<^verbatim>\<open>0.0\<close>, \<^verbatim>\<open>a + b\<close>, and \<^verbatim>\<open>price * quantity\<close> with an
  integer quantity.
\<close>

record 'p float_ops =
  f_zero :: 'p
  f_add :: "'p \<Rightarrow> 'p \<Rightarrow> 'p"
  f_mul :: "'p \<Rightarrow> int \<Rightarrow> 'p"

text \<open>
  What a route can answer besides its result: \<^verbatim>\<open>HTTPException(status, detail)\<close>,
  the 422 of FastAPI's request validation, and an exception that no handler catches
  (an attribute read on \<^verbatim>\<open>None\<close>, an integrity error at commit, a failure in the
  invoice renderer), named by its Python class.
\<close>

datatype error =
    HTTPException int string
  | RequestValidationError
  | Unhandled string

record 'p product =
  p_id :: int
  p_name :: string
  p_description :: "string option"
  p_price :: 'p
  p_currency :: "string option"
  p_sku :: "string option"
  p_stock :: "int option"

record cart_item =
  ci_id :: int
  ci_user_id :: int
  ci_product_id :: int
  ci_quantity :: int

record 'p order =
  o_id :: int
  o_user_id :: int
  o_total_amount :: 'p
  o_currency :: string
  o_status :: string
  o_invoice_path :: "string option"

record 'p order_item =
  oi_id :: int
  oi_order_id :: int
  oi_product_id :: int
  oi_name_snapshot :: string
  oi_unit_price :: 'p
  oi_quantity :: int
  oi_subtotal :: 'p

record 'p db =
  products :: "'p product list"
  cart_items :: "cart_item list"
  orders :: "'p order list"
  order_items :: "'p order_item list"

subsection \<open>Request and response schemas\<close>

text \<open>
  A field of a JSON request body that the schema gives a default may be left out.
\<close>

datatype 'a field = Omitted | Given 'a

fun field_or :: "'a field \<Rightarrow> 'a \<Rightarrow> 'a" where
  "field_or Omitted d = d"
| "field_or (Given v) d = v"

text \<open>The body sent to \<^verbatim>\<open>POST /products\<close> and \<^verbatim>\<open>PUT /products/{id}\<close>.\<close>

record 'p product_body =
  b_name :: string
  b_description :: "string option field"
  b_price :: 'p
  b_currency :: "string field"
  b_sku :: "string option field"
  b_stock :: "int field"

text \<open>\<^verbatim>\<open>ProductCreate\<close>: the body after pydantic has filled in the defaults.\<close>

record 'p product_create =
  pc_name :: string
  pc_description :: "string option"
  pc_price :: 'p
  pc_currency :: string
  pc_sku :: "string option"
  pc_stock :: int

definition ProductCreate :: "'p product_body \<Rightarrow> 'p product_create" where
  "ProductCreate b =
     \<lparr>pc_name = b_name b,
      pc_description = field_or (b_description b) None,
      pc_price = b_price b,
      pc_currency = field_or (b_currency b) ''USD'',
      pc_sku = field_or (b_sku b) None,
      pc_stock = field_or (b_stock b) 0\<rparr>"

text \<open>\<^verbatim>\<open>CartAdd\<close>; \<^verbatim>\<open>quantity\<close> carries the constraint \<^verbatim>\<open>ge=1\<close>.\<close>

record cart_add =
  ca_product_id :: int
  ca_quantity :: int

record 'p cart_item_out =
  cio_id :: int
  cio_product_id :: int
  cio_product_name :: string
  cio_unit_price :: 'p
  cio_quantity :: int
  cio_subtotal :: 'p

record 'p checkout_out =
  co_order_id :: int
  co_total_amount :: 'p
  co_currency :: string
  co_invoice_url :: string

record 'p order_item_out =
  oio_product_id :: int
  oio_name_snapshot :: string
  oio_unit_price :: 'p
  oio_quantity :: int
  oio_subtotal :: 'p

record 'p order_out =
  oo_id :: int
  oo_total_amount :: 'p
  oo_currency :: string
  oo_status :: string
  oo_items :: "'p order_item_out list"

section \<open>Database access\<close>

text \<open>
  New rows get their primary key from SQLite (the default \<^verbatim>\<open>DATABASE_URL\<close>): one more
  than the largest key in the table, 1 in an empty table.
\<close>

definition next_id :: "int list \<Rightarrow> int" where
  "next_id ids = fold max ids 0 + 1"

text \<open>\<^verbatim>\<open>db.get(Model, id)\<close>: the row with that primary key, or \<^verbatim>\<open>None\<close>.\<close>

definition get_Product :: "'p db \<Rightarrow> int \<Rightarrow> 'p product option" where
  "get_Product d i = find (\<lambda>p. p_id p = i) (products d)"

definition get_CartItem :: "'p db \<Rightarrow> int \<Rightarrow> cart_item option" where
  "get_CartItem d i = find (\<lambda>c. ci_id c = i) (cart_items d)"

definition get_Order :: "'p db \<Rightarrow> int \<Rightarrow> 'p order option" where
  "get_Order d i = find (\<lambda>r. o_id r = i) (orders d)"

text \<open>The relationship \<^verbatim>\<open>Order.items\<close>.\<close>

definition items_of :: "'p db \<Rightarrow> int \<Rightarrow> 'p order_item list" where
  "items_of d oid = filter (\<lambda>it. oi_order_id it = oid) (order_items d)"

text \<open>\<^verbatim>\<open>db.query(CartItem).filter(CartItem.user_id == current_user.id).all()\<close>\<close>

definition cart_of :: "'p db \<Rightarrow> int \<Rightarrow> cart_item list" where
  "cart_of d uid = filter (\<lambda>c. ci_user_id c = uid) (cart_items d)"

text \<open>
  The stock test shared by the cart routes and checkout:
  \<^verbatim>\<open>product.stock is not None and quantity > product.stock\<close>.
\<close>

definition not_enough_stock :: "int option \<Rightarrow> int \<Rightarrow> bool" where
  "not_enough_stock stock quantity =
     (case stock of None \<Rightarrow> False | Some s \<Rightarrow> quantity > s)"

text \<open>
  \<^verbatim>\<open>product.currency or currency\<close>: Python's \<^verbatim>\<open>or\<close> keeps the left operand only when
  it is truthy, and both \<^verbatim>\<open>None\<close> and the empty string are falsy.
\<close>

definition truthy :: "string option \<Rightarrow> bool" where
  "truthy c = (case c of None \<Rightarrow> False | Some s \<Rightarrow> s \<noteq> [])"

definition py_or :: "string option \<Rightarrow> string \<Rightarrow> string" where
  "py_or c d = (case c of None \<Rightarrow> d | Some s \<Rightarrow> if s = [] then d else s)"

text \<open>\<^verbatim>\<open>str(n)\<close> for an integer, as the f-string of the invoice URL prints it.\<close>

fun str_nat :: "nat \<Rightarrow> string" where
  "str_nat n =
     (if n < 10 then [''0123456789'' ! n]
      else str_nat (n div 10) @ [''0123456789'' ! (n mod 10)])"

declare str_nat.simps [simp del]

definition str_int :: "int \<Rightarrow> string" where
  "str_int i = (if i < 0 then CHR ''-'' # str_nat (nat (- i)) else str_nat (nat i))"

section \<open>Product routes\<close>

text \<open>
  The column \<^verbatim>\<open>sku\<close> is \<^verbatim>\<open>unique=True\<close>: a commit that would give two rows the same
  non-null sku raises \<^verbatim>\<open>IntegrityError\<close>, and the session's changes are lost.
\<close>

definition sku_taken :: "'p product list \<Rightarrow> int \<Rightarrow> string option \<Rightarrow> bool" where
  "sku_taken ps self sku =
     (case sku of None \<Rightarrow> False
      | Some s \<Rightarrow> list_ex (\<lambda>r. p_id r \<noteq> self \<and> p_sku r = Some s) ps)"

definition create_product ::
  "'p db \<Rightarrow> 'p product_body \<Rightarrow> (error + 'p product) \<times> 'p db" where
  "create_product d body =
     (let product = ProductCreate body;
          p = \<lparr>p_id = next_id (map p_id (products d)),
               p_name = pc_name product,
               p_description = pc_description product,
               p_price = pc_price product,
               p_currency = Some (pc_currency product),
               p_sku = pc_sku product,
               p_stock = Some (pc_stock product)\<rparr>
      in if sku_taken (products d) (p_id p) (p_sku p)
         then (Inl (Unhandled ''IntegrityError''), d)
         else (Inr p, d\<lparr>products := products d @ [p]\<rparr>))"

definition get_product :: "'p db \<Rightarrow> int \<Rightarrow> error + 'p product" where
  "get_product d product_id =
     (case get_Product d product_id of
        None \<Rightarrow> Inl (HTTPException 404 ''Product not found'')
      | Some p \<Rightarrow> Inr p)"

text \<open>
  \<^verbatim>\<open>for k, v in product.model_dump().items(): setattr(p, k, v)\<close> assigns all six
  fields of the schema.
\<close>

definition set_fields :: "'p product_create \<Rightarrow> 'p product \<Rightarrow> 'p product" where
  "set_fields product p =
     p\<lparr>p_name := pc_name product,
       p_description := pc_description product,
       p_price := pc_price product,
       p_currency := Some (pc_currency product),
       p_sku := pc_sku product,
       p_stock := Some (pc_stock product)\<rparr>"

definition update_product ::
  "'p db \<Rightarrow> int \<Rightarrow> 'p product_body \<Rightarrow> (error + 'p product) \<times> 'p db" where
  "update_product d product_id body =
     (case get_Product d product_id of
        None \<Rightarrow> (Inl (HTTPException 404 ''Product not found''), d)
      | Some p \<Rightarrow>
          let product = ProductCreate body
          in if sku_taken (products d) product_id (pc_sku product)
             then (Inl (Unhandled ''IntegrityError''), d)
             else (Inr (set_fields product p),
                   d\<lparr>products :=
                       map (\<lambda>r. if p_id r = product_id then set_fields product r else r)
                         (products d)\<rparr>))"

text \<open>
  \<^verbatim>\<open>db.delete(p)\<close> follows the relationship \<^verbatim>\<open>Product.order_items\<close>, declared with
  \<^verbatim>\<open>cascade="all, delete"\<close>: the order items that reference the product are deleted
  with it. No relationship leads from a product to its cart items, and SQLite does not
  enforce the foreign key, so cart rows of the product stay behind.
\<close>

definition delete_product :: "'p db \<Rightarrow> int \<Rightarrow> (error + unit) \<times> 'p db" where
  "delete_product d product_id =
     (case get_Product d product_id of
        None \<Rightarrow> (Inl (HTTPException 404 ''Product not found''), d)
      | Some p \<Rightarrow>
          (Inr (),
           d\<lparr>products := filter (\<lambda>r. p_id r \<noteq> product_id) (products d),
             order_items := filter (\<lambda>it. oi_product_id it \<noteq> product_id) (order_items d)\<rparr>))"

section \<open>Cart routes\<close>

definition CartItemOut :: "'p float_ops \<Rightarrow> cart_item \<Rightarrow> 'p product \<Rightarrow> 'p cart_item_out" where
  "CartItemOut F ci product =
     \<lparr>cio_id = ci_id ci,
      cio_product_id = ci_product_id ci,
      cio_product_name = p_name product,
      cio_unit_price = p_price product,
      cio_quantity = ci_quantity ci,
      cio_subtotal = f_mul F (p_price product) (ci_quantity ci)\<rparr>"

definition add_to_cart ::
  "'p float_ops \<Rightarrow> 'p db \<Rightarrow> int \<Rightarrow> cart_add \<Rightarrow> (error + 'p cart_item_out) \<times> 'p db" where
  "add_to_cart F d uid item =
     (if ca_quantity item < 1 then (Inl RequestValidationError, d)
      else case get_Product d (ca_product_id item) of
        None \<Rightarrow> (Inl (HTTPException 404 ''Product not found''), d)
      | Some product \<Rightarrow>
          if not_enough_stock (p_stock product) (ca_quantity item)
          then (Inl (HTTPException 400 ''Not enough stock''), d)
          else
            (case find (\<lambda>c. ci_user_id c = uid \<and> ci_product_id c = ca_product_id item)
                    (cart_items d) of
               Some existing \<Rightarrow>
                 let cart_item = existing\<lparr>ci_quantity := ci_quantity existing + ca_quantity item\<rparr>
                 in (Inr (CartItemOut F cart_item product),
                     d\<lparr>cart_items :=
                         map (\<lambda>c. if ci_id c = ci_id existing
                                  then c\<lparr>ci_quantity := ci_quantity c + ca_quantity item\<rparr>
                                  else c)
                           (cart_items d)\<rparr>)
             | None \<Rightarrow>
                 let cart_item = \<lparr>ci_id = next_id (map ci_id (cart_items d)),
                                  ci_user_id = uid,
                                  ci_product_id = ca_product_id item,
                                  ci_quantity = ca_quantity item\<rparr>
                 in (Inr (CartItemOut F cart_item product),
                     d\<lparr>cart_items := cart_items d @ [cart_item]\<rparr>)))"

text \<open>
  \<^verbatim>\<open>view_cart\<close> reads \<^verbatim>\<open>ci.product.name\<close>; for a cart row whose product is gone the
  relationship is \<^verbatim>\<open>None\<close> and the read raises.
\<close>

fun view_rows :: "'p float_ops \<Rightarrow> 'p db \<Rightarrow> cart_item list \<Rightarrow> error + 'p cart_item_out list" where
  "view_rows F d [] = Inr []"
| "view_rows F d (ci # items) =
     (case get_Product d (ci_product_id ci) of
        None \<Rightarrow> Inl (Unhandled ''AttributeError'')
      | Some product \<Rightarrow>
          (case view_rows F d items of
             Inl e \<Rightarrow> Inl e
           | Inr result \<Rightarrow> Inr (CartItemOut F ci product # result)))"

definition view_cart :: "'p float_ops \<Rightarrow> 'p db \<Rightarrow> int \<Rightarrow> error + 'p cart_item_out list" where
  "view_cart F d uid = view_rows F d (cart_of d uid)"

definition update_cart_item ::
  "'p float_ops \<Rightarrow> 'p db \<Rightarrow> int \<Rightarrow> int \<Rightarrow> int \<Rightarrow> (error + 'p cart_item_out) \<times> 'p db" where
  "update_cart_item F d uid item_id quantity =
     (if quantity < 1 then (Inl RequestValidationError, d)
      else case get_CartItem d item_id of
        None \<Rightarrow> (Inl (HTTPException 404 ''Cart item not found''), d)
      | Some ci \<Rightarrow>
          if ci_user_id ci \<noteq> uid then (Inl (HTTPException 404 ''Cart item not found''), d)
          else
            (case get_Product d (ci_product_id ci) of
               None \<Rightarrow> (Inl (Unhandled ''AttributeError''), d)
             | Some product \<Rightarrow>
                 if not_enough_stock (p_stock product) quantity
                 then (Inl (HTTPException 400 ''Not enough stock''), d)
                 else (Inr (CartItemOut F (ci\<lparr>ci_quantity := quantity\<rparr>) product),
                       d\<lparr>cart_items :=
                           map (\<lambda>c. if ci_id c = item_id then c\<lparr>ci_quantity := quantity\<rparr> else c)
                             (cart_items d)\<rparr>)))"

definition remove_cart_item :: "'p db \<Rightarrow> int \<Rightarrow> int \<Rightarrow> (error + unit) \<times> 'p db" where
  "remove_cart_item d uid item_id =
     (case get_CartItem d item_id of
        None \<Rightarrow> (Inl (HTTPException 404 ''Cart item not found''), d)
      | Some ci \<Rightarrow>
          if ci_user_id ci \<noteq> uid then (Inl (HTTPException 404 ''Cart item not found''), d)
          else (Inr (), d\<lparr>cart_items := filter (\<lambda>c. ci_id c \<noteq> item_id) (cart_items d)\<rparr>))"

definition clear_cart :: "'p db \<Rightarrow> int \<Rightarrow> (error + unit) \<times> 'p db" where
  "clear_cart d uid =
     (Inr (), d\<lparr>cart_items := filter (\<lambda>c. ci_user_id c \<noteq> uid) (cart_items d)\<rparr>)"

section \<open>Checkout\<close>

text \<open>
  The first loop of \<^verbatim>\<open>checkout\<close>: it validates the stock of every cart row and
  accumulates \<^verbatim>\<open>total\<close> (here \<open>tot\<close>) and \<^verbatim>\<open>currency\<close>. It only reads. A cart row whose
  product is gone makes \<^verbatim>\<open>product.stock\<close> raise.
\<close>

fun checkout_validate ::
  "'p float_ops \<Rightarrow> 'p db \<Rightarrow> cart_item list \<Rightarrow> 'p \<Rightarrow> string \<Rightarrow> error + ('p \<times> string)" where
  "checkout_validate F d [] tot currency = Inr (tot, currency)"
| "checkout_validate F d (ci # items) tot currency =
     (case get_Product d (ci_product_id ci) of
        None \<Rightarrow> Inl (Unhandled ''AttributeError'')
      | Some product \<Rightarrow>
          if not_enough_stock (p_stock product) (ci_quantity ci)
          then Inl (HTTPException 400 (''Not enough stock for '' @ p_name product))
          else checkout_validate F d items
                 (f_add F tot (f_mul F (p_price product) (ci_quantity ci)))
                 (py_or (p_currency product) currency))"

text \<open>
  \<^verbatim>\<open>product.stock = max(0, product.stock - ci.quantity)\<close>, guarded by
  \<^verbatim>\<open>product.stock is not None\<close>.
\<close>

definition reduce_stock :: "int \<Rightarrow> 'p product \<Rightarrow> 'p product" where
  "reduce_stock quantity product =
     (case p_stock product of
        None \<Rightarrow> product
      | Some s \<Rightarrow> product\<lparr>p_stock := Some (max 0 (s - quantity))\<rparr>)"

text \<open>
  The second loop: one order item per cart row, and the stock reduction. The session
  holds the products it has already changed, so a later row of the same product sees the
  reduced stock; the new order items get their keys in the order they were added.
\<close>

fun checkout_items ::
  "'p float_ops \<Rightarrow> int \<Rightarrow> cart_item list \<Rightarrow> 'p db \<Rightarrow> error + 'p db" where
  "checkout_items F order_id [] d = Inr d"
| "checkout_items F order_id (ci # items) d =
     (case get_Product d (ci_product_id ci) of
        None \<Rightarrow> Inl (Unhandled ''AttributeError'')
      | Some product \<Rightarrow>
          let oi = \<lparr>oi_id = next_id (map oi_id (order_items d)),
                    oi_order_id = order_id,
                    oi_product_id = p_id product,
                    oi_name_snapshot = p_name product,
                    oi_unit_price = p_price product,
                    oi_quantity = ci_quantity ci,
                    oi_subtotal = f_mul F (p_price product) (ci_quantity ci)\<rparr>
          in checkout_items F order_id items
               (d\<lparr>order_items := order_items d @ [oi],
                  products :=
                    map (\<lambda>r. if p_id r = p_id product then reduce_stock (ci_quantity ci) r else r)
                      (products d)\<rparr>))"

text \<open>
  \<^verbatim>\<open>checkout\<close>. The invoice renderer \<^verbatim>\<open>generate_invoice_pdf\<close> is a parameter: it
  gets the order and its items and answers the path of the file it wrote, or fails.
  The route commits three times before it renders (the order; the order items and the
  stock; the cleared cart), so a failure leaves the database as of the last commit.
\<close>

definition checkout ::
  "'p float_ops \<Rightarrow> ('p order \<Rightarrow> 'p order_item list \<Rightarrow> error + string) \<Rightarrow> 'p db \<Rightarrow> int
     \<Rightarrow> (error + 'p checkout_out) \<times> 'p db" where
  "checkout F generate_invoice_pdf d uid =
     (let cart = cart_of d uid in
      if cart = [] then (Inl (HTTPException 400 ''Cart is empty''), d)
      else
        (case checkout_validate F d cart (f_zero F) ''USD'' of
           Inl e \<Rightarrow> (Inl e, d)
         | Inr (tot, currency) \<Rightarrow>
             (let order = \<lparr>o_id = next_id (map o_id (orders d)),
                           o_user_id = uid,
                           o_total_amount = tot,
                           o_currency = currency,
                           o_status = ''PAID'',
                           o_invoice_path = None\<rparr>;
                  d1 = d\<lparr>orders := orders d @ [order]\<rparr>
              in (case checkout_items F (o_id order) cart d1 of
                    Inl e \<Rightarrow> (Inl e, d1)
                  | Inr d2 \<Rightarrow>
                      (let d3 = d2\<lparr>cart_items :=
                                     filter (\<lambda>c. ci_user_id c \<noteq> uid) (cart_items d2)\<rparr>
                       in (case get_Order d3 (o_id order) of
                             None \<Rightarrow> (Inl (Unhandled ''AttributeError''), d3)
                           | Some order' \<Rightarrow>
                               (case generate_invoice_pdf order' (items_of d3 (o_id order')) of
                                  Inl e \<Rightarrow> (Inl e, d3)
                                | Inr invoice_path \<Rightarrow>
                                    (Inr \<lparr>co_order_id = o_id order',
                                          co_total_amount = o_total_amount order',
                                          co_currency = o_currency order',
                                          co_invoice_url =
                                            ''/orders/'' @ str_int (o_id order') @ ''/invoice''\<rparr>,
                                     d3\<lparr>orders :=
                                          map (\<lambda>r. if o_id r = o_id order'
                                                   then r\<lparr>o_invoice_path := Some invoice_path\<rparr>
                                                   else r)
                                            (orders d3)\<rparr>))))))))"

section \<open>Order routes\<close>

definition OrderItemOut :: "'p order_item \<Rightarrow> 'p order_item_out" where
  "OrderItemOut it =
     \<lparr>oio_product_id = oi_product_id it,
      oio_name_snapshot = oi_name_snapshot it,
      oio_unit_price = oi_unit_price it,
      oio_quantity = oi_quantity it,
      oio_subtotal = oi_subtotal it\<rparr>"

definition get_order :: "'p db \<Rightarrow> int \<Rightarrow> int \<Rightarrow> error + 'p order_out" where
  "get_order d uid order_id =
     (case get_Order d order_id of
        None \<Rightarrow> Inl (HTTPException 404 ''Order not found'')
      | Some ord \<Rightarrow>
          if o_user_id ord \<noteq> uid then Inl (HTTPException 404 ''Order not found'')
          else Inr \<lparr>oo_id = o_id ord,
                    oo_total_amount = o_total_amount ord,
                    oo_currency = o_currency ord,
                    oo_status = o_status ord,
                    oo_items = map OrderItemOut (items_of d (o_id ord))\<rparr>)"

text \<open>
  \<^verbatim>\<open>download_invoice\<close> answers the path of the file to send; \<^verbatim>\<open>os.path.exists\<close> is
  a parameter.
\<close>

definition download_invoice :: "(string \<Rightarrow> bool) \<Rightarrow> 'p db \<Rightarrow> int \<Rightarrow> int \<Rightarrow> error + string" where
  "download_invoice path_exists d uid order_id =
     (case get_Order d order_id of
        None \<Rightarrow> Inl (HTTPException 404 ''Order not found'')
      | Some ord \<Rightarrow>
          if o_user_id ord \<noteq> uid then Inl (HTTPException 404 ''Order not found'')
          else (case o_invoice_path ord of
                  None \<Rightarrow> Inl (HTTPException 404 ''Invoice not found'')
                | Some path \<Rightarrow>
                    if path = [] \<or> \<not> path_exists path
                    then Inl (HTTPException 404 ''Invoice not found'')
                    else Inr path))"

section \<open>Sequences of requests\<close>

text \<open>
  The routes that write, as requests of an authenticated caller; \<open>run\<close> serves a list of
  them one after the other, each on the database the previous one left.
\<close>

datatype 'p request =
    CreateProduct "'p product_body"
  | UpdateProduct int "'p product_body"
  | DeleteProduct int
  | AddToCart int cart_add
  | UpdateCartItem int int int
  | RemoveCartItem int int
  | ClearCart int
  | Checkout int

fun serve ::
  "'p float_ops \<Rightarrow> ('p order \<Rightarrow> 'p order_item list \<Rightarrow> error + string) \<Rightarrow> 'p db \<Rightarrow> 'p request
     \<Rightarrow> 'p db" where
  "serve F g d (CreateProduct body) = snd (create_product d body)"
| "serve F g d (UpdateProduct product_id body) = snd (update_product d product_id body)"
| "serve F g d (DeleteProduct product_id) = snd (delete_product d product_id)"
| "serve F g d (AddToCart uid item) = snd (add_to_cart F d uid item)"
| "serve F g d (UpdateCartItem uid item_id quantity) =
     snd (update_cart_item F d uid item_id quantity)"
| "serve F g d (RemoveCartItem uid item_id) = snd (remove_cart_item d uid item_id)"
| "serve F g d (ClearCart uid) = snd (clear_cart d uid)"
| "serve F g d (Checkout uid) = snd (checkout F g d uid)"

definition run ::
  "'p float_ops \<Rightarrow> ('p order \<Rightarrow> 'p order_item list \<Rightarrow> error + string) \<Rightarrow> 'p db
     \<Rightarrow> 'p request list \<Rightarrow> 'p db" where
  "run F g d reqs = foldl (serve F g) d reqs"

section \<open>Notions for the statements\<close>

text \<open>The row that \<^verbatim>\<open>checkout\<close> inserts into \<^verbatim>\<open>orders\<close>.\<close>

definition placed_order :: "'p db \<Rightarrow> int \<Rightarrow> 'p \<Rightarrow> string \<Rightarrow> 'p order" where
  "placed_order d uid tot currency =
     \<lparr>o_id = next_id (map o_id (orders d)), o_user_id = uid, o_total_amount = tot,
      o_currency = currency, o_status = ''PAID'', o_invoice_path = None\<rparr>"

text \<open>\<^verbatim>\<open>product.price * ci.quantity\<close> for a cart row, with the product as stored.\<close>

definition line_total :: "'p float_ops \<Rightarrow> 'p db \<Rightarrow> cart_item \<Rightarrow> 'p" where
  "line_total F d ci =
     (case get_Product d (ci_product_id ci) of
        None \<Rightarrow> f_zero F
      | Some p \<Rightarrow> f_mul F (p_price p) (ci_quantity ci))"

text \<open>The currency of the product of a cart row.\<close>

definition product_currency :: "'p db \<Rightarrow> cart_item \<Rightarrow> string option" where
  "product_currency d ci =
     (case get_Product d (ci_product_id ci) of None \<Rightarrow> None | Some p \<Rightarrow> p_currency p)"

text \<open>
  The last currency in a list that Python takes as true, and a default when there is none.
\<close>

definition winning_currency :: "string option list \<Rightarrow> string \<Rightarrow> string" where
  "winning_currency cs dflt =
     (case find truthy (rev cs) of Some (Some c) \<Rightarrow> c | _ \<Rightarrow> dflt)"

text \<open>Every order item belongs to a stored order.\<close>

definition order_items_linked :: "'p db \<Rightarrow> bool" where
  "order_items_linked d \<longleftrightarrow>
     (\<forall>it\<in>set (order_items d). oi_order_id it \<in> set (map o_id (orders d)))"

text \<open>No tracked stock is negative.\<close>

definition stock_nonneg :: "'p db \<Rightarrow> bool" where
  "stock_nonneg d \<longleftrightarrow>
     list_all (\<lambda>p. case p_stock p of None \<Rightarrow> True | Some s \<Rightarrow> 0 \<le> s) (products d)"

text \<open>A request that does not store a negative stock.\<close>

definition stock_request_ok :: "'p request \<Rightarrow> bool" where
  "stock_request_ok req =
     (case req of
        CreateProduct body \<Rightarrow> 0 \<le> pc_stock (ProductCreate body)
      | UpdateProduct product_id body \<Rightarrow> 0 \<le> pc_stock (ProductCreate body)
      | _ \<Rightarrow> True)"

text \<open>At most one cart row per (user, product).\<close>

definition cart_unique :: "'p db \<Rightarrow> bool" where
  "cart_unique d \<longleftrightarrow> distinct (map (\<lambda>c. (ci_user_id c, ci_product_id c)) (cart_items d))"

text \<open>The cart rows of a user for a product.\<close>

definition pairing :: "'p db \<Rightarrow> int \<Rightarrow> int \<Rightarrow> cart_item list" where
  "pairing d uid product_id =
     filter (\<lambda>c. ci_user_id c = uid \<and> ci_product_id c = product_id) (cart_items d)"

section \<open>A shop to compute with\<close>

text \<open>
  Exact arithmetic on the reals stands in for the floats, and an invoice renderer that
  always succeeds and answers the path \<^verbatim>\<open>generate_invoice_pdf\<close> builds. The
  databases below are reached by requests from the empty one.
\<close>

definition exact_ops :: "real float_ops" where
  "exact_ops = \<lparr>f_zero = 0, f_add = (+), f_mul = (\<lambda>p q. p * of_int q)\<rparr>"

definition invoice_file :: "real order \<Rightarrow> real order_item list \<Rightarrow> error + string" where
  "invoice_file ord its = Inr (''./invoices/invoice_order_'' @ str_int (o_id ord) @ ''.pdf'')"

definition empty_db :: "real db" where
  "empty_db = \<lparr>products = [], cart_items = [], orders = [], order_items = []\<rparr>"

definition product_P :: "real product_body" where
  "product_P = \<lparr>b_name = ''P'', b_description = Omitted, b_price = 10, b_currency = Omitted,
      b_sku = Omitted, b_stock = Given 5\<rparr>"

definition cart_db :: "real db" where
  "cart_db = run exact_ops invoice_file empty_db
       [CreateProduct product_P, AddToCart 7 \<lparr>ca_product_id = 1, ca_quantity = 3\<rparr>]"

definition two_db :: "real db" where
  "two_db = run exact_ops invoice_file empty_db
       [CreateProduct product_P, AddToCart 7 \<lparr>ca_product_id = 1, ca_quantity = 2\<rparr>]"

definition short_db :: "real db" where
  "short_db = run exact_ops invoice_file empty_db
     [CreateProduct product_P,
      CreateProduct (product_P\<lparr>b_name := ''Q''\<rparr>),
      AddToCart 7 \<lparr>ca_product_id = 1, ca_quantity = 1\<rparr>,
      AddToCart 7 \<lparr>ca_product_id = 2, ca_quantity = 3\<rparr>,
      UpdateProduct 2 (product_P\<lparr>b_name := ''Q'', b_stock := Given 2\<rparr>)]"

definition sold_db :: "real db" where
  "sold_db = run exact_ops invoice_file cart_db [Checkout 7]"

definition busy_db :: "real db" where
  "busy_db = run exact_ops invoice_file sold_db [AddToCart 7 \<lparr>ca_product_id = 1, ca_quantity = 2\<rparr>]"

definition mixed_db :: "real db" where
  "mixed_db = run exact_ops invoice_file empty_db
     [CreateProduct (product_P\<lparr>b_currency := Given ''EUR''\<rparr>),
      CreateProduct (product_P\<lparr>b_name := ''Q'', b_currency := Given ''''\<rparr>),
      AddToCart 7 \<lparr>ca_product_id = 1, ca_quantity = 1\<rparr>,
      AddToCart 7 \<lparr>ca_product_id = 2, ca_quantity = 1\<rparr>]"

text \<open>A product with every field set, and a body that names only a name and a price.\<close>

definition stocked_db :: "real db" where
  "stocked_db =
     \<lparr>products = [\<lparr>p_id = 1, p_name = ''P'', p_description = Some ''a product'', p_price = 10,
                    p_currency = Some ''EUR'', p_sku = Some ''sku-1'', p_stock = Some 5\<rparr>],
      cart_items = [], orders = [], order_items = []\<rparr>"

definition name_and_price :: "real product_body" where
  "name_and_price =
     \<lparr>b_name = ''Q'', b_description = Omitted, b_price = 12, b_currency = Omitted,
      b_sku = Omitted, b_stock = Omitted\<rparr>"

text \<open>A new price for the product, and a body with a negative stock.\<close>

definition pricier_P :: "real product_body" where
  "pricier_P = \<lparr>b_name = ''P'', b_description = Omitted, b_price = 99, b_currency = Omitted,
      b_sku = Omitted, b_stock = Given 2\<rparr>"

definition overdrawn_P :: "real product_body" where
  "overdrawn_P = \<lparr>b_name = ''P'', b_description = Omitted, b_price = 10, b_currency = Omitted,
      b_sku = Omitted, b_stock = Given (- 1)\<rparr>"

section \<open>Keys and lookups\<close>

lemma fold_max_ge_init: "(a::int) \<le> fold max xs a"
  by (induction xs arbitrary: a) (auto intro: order_trans [OF max.cobounded2])

lemma fold_max_ge_elem: "x \<in> set xs \<Longrightarrow> (x::int) \<le> fold max xs a"
proof (induction xs arbitrary: a)
  case Nil
  then show ?case by simp
next
  case (Cons y ys)
  show ?case
  proof (cases "x = y")
    case True
    have "y \<le> max y a" by simp
    also have "\<dots> \<le> fold max ys (max y a)" by (rule fold_max_ge_init)
    finally show ?thesis using True by simp
  next
    case False
    with Cons show ?thesis by simp
  qed
qed

lemma next_id_fresh: "next_id ids \<notin> set ids"
proof
  assume "next_id ids \<in> set ids"
  then have "next_id ids \<le> fold max ids 0" by (rule fold_max_ge_elem)
  then show False by (simp add: next_id_def)
qed

lemma next_id_fresh_map: "x \<in> set xs \<Longrightarrow> f x \<noteq> next_id (map f xs)"
  using next_id_fresh [of "map f xs"] by force

lemma find_Some_pred: "find P xs = Some x \<Longrightarrow> P x \<and> x \<in> set xs"
  by (induction xs) (auto split: if_splits)

lemma find_map_keep:
  assumes "\<And>x. P (f x) = P x"
  shows "find P (map f xs) = map_option f (find P xs)"
  using assms by (induction xs) auto

lemma find_append_fresh:
  "\<forall>x\<in>set xs. \<not> P x \<Longrightarrow> P y \<Longrightarrow> find P (xs @ [y]) = Some y"
  by (induction xs) auto

lemma get_Product_id: "get_Product d i = Some p \<Longrightarrow> p_id p = i"
  by (auto simp: get_Product_def dest: find_Some_pred)

lemma map_const_all: "map f xs = map (\<lambda>_. c) ys \<Longrightarrow> x \<in> set xs \<Longrightarrow> f x = c"
proof -
  assume eq: "map f xs = map (\<lambda>_. c) ys" and x: "x \<in> set xs"
  from x have "f x \<in> set (map f xs)" by simp
  then have "f x \<in> set (map (\<lambda>_. c) ys)" by (simp only: eq)
  then show "f x = c" by auto
qed

lemma map_pair_zip: "map (\<lambda>x. (f x, g x)) xs = zip (map f xs) (map g xs)"
  by (induction xs) simp_all

lemma distinct_key_filter:
  "distinct (map f xs) \<Longrightarrow> length (filter (\<lambda>x. f x = k) xs) \<le> 1"
proof (induction xs)
  case Nil
  then show ?case by simp
next
  case (Cons x xs)
  show ?case
  proof (cases "f x = k")
    case True
    with Cons.prems have "k \<notin> f ` set xs" by simp
    then have "\<forall>y\<in>set xs. f y \<noteq> k" by blast
    then have "filter (\<lambda>x. f x = k) xs = []" by (simp add: filter_empty_conv)
    with True show ?thesis by simp
  next
    case False
    with Cons show ?thesis by simp
  qed
qed

lemma find_unique_filter:
  "distinct (map f xs) \<Longrightarrow> find (\<lambda>x. f x = k) xs = Some e \<Longrightarrow> filter (\<lambda>x. f x = k) xs = [e]"
proof (induction xs)
  case Nil
  then show ?case by simp
next
  case (Cons x xs)
  show ?case
  proof (cases "f x = k")
    case True
    with Cons.prems have "k \<notin> f ` set xs" and e: "e = x" by simp_all
    then have "\<forall>y\<in>set xs. f y \<noteq> k" by blast
    then show ?thesis using True e by (simp add: filter_empty_conv)
  next
    case False
    with Cons show ?thesis by simp
  qed
qed

section \<open>The example shop, evaluated\<close>

lemma str_int_1: "str_int 1 = ''1''"
  by (simp add: str_int_def str_nat.simps)

lemmas eval_defs = run_def exact_ops_def invoice_file_def empty_db_def
  create_product_def add_to_cart_def update_product_def delete_product_def checkout_def
  ProductCreate_def next_id_def sku_taken_def get_Product_def not_enough_stock_def
  cart_of_def py_or_def reduce_stock_def get_Order_def items_of_def CartItemOut_def set_fields_def
  Let_def

lemma cart_db_eq:
  "cart_db =
     \<lparr>products = [\<lparr>p_id = 1, p_name = ''P'', p_description = None, p_price = 10,
                    p_currency = Some ''USD'', p_sku = None, p_stock = Some 5\<rparr>],
      cart_items = [\<lparr>ci_id = 1, ci_user_id = 7, ci_product_id = 1, ci_quantity = 3\<rparr>],
      orders = [], order_items = []\<rparr>"
  by (simp add: cart_db_def product_P_def eval_defs)

lemma two_db_eq:
  "two_db =
     \<lparr>products = [\<lparr>p_id = 1, p_name = ''P'', p_description = None, p_price = 10,
                    p_currency = Some ''USD'', p_sku = None, p_stock = Some 5\<rparr>],
      cart_items = [\<lparr>ci_id = 1, ci_user_id = 7, ci_product_id = 1, ci_quantity = 2\<rparr>],
      orders = [], order_items = []\<rparr>"
  by (simp add: two_db_def product_P_def eval_defs)

lemma short_db_eq:
  "short_db =
     \<lparr>products = [\<lparr>p_id = 1, p_name = ''P'', p_description = None, p_price = 10,
                    p_currency = Some ''USD'', p_sku = None, p_stock = Some 5\<rparr>,
                  \<lparr>p_id = 2, p_name = ''Q'', p_description = None, p_price = 10,
                    p_currency = Some ''USD'', p_sku = None, p_stock = Some 2\<rparr>],
      cart_items = [\<lparr>ci_id = 1, ci_user_id = 7, ci_product_id = 1, ci_quantity = 1\<rparr>,
                    \<lparr>ci_id = 2, ci_user_id = 7, ci_product_id = 2, ci_quantity = 3\<rparr>],
      orders = [], order_items = []\<rparr>"
  by (simp add: short_db_def product_P_def eval_defs)

lemma checkout_cart_db:
  "checkout exact_ops invoice_file cart_db 7 =
     (Inr \<lparr>co_order_id = 1, co_total_amount = 30, co_currency = ''USD'',
           co_invoice_url = ''/orders/1/invoice''\<rparr>,
      \<lparr>products = [\<lparr>p_id = 1, p_name = ''P'', p_description = None, p_price = 10,
                    p_currency = Some ''USD'', p_sku = None, p_stock = Some 2\<rparr>],
       cart_items = [],
       orders = [\<lparr>o_id = 1, o_user_id = 7, o_total_amount = 30, o_currency = ''USD'',
                  o_status = ''PAID'',
                  o_invoice_path = Some ''./invoices/invoice_order_1.pdf''\<rparr>],
       order_items = [\<lparr>oi_id = 1, oi_order_id = 1, oi_product_id = 1,
                       oi_name_snapshot = ''P'', oi_unit_price = 10, oi_quantity = 3,
                       oi_subtotal = 30\<rparr>]\<rparr>)"
  by (simp add: cart_db_eq eval_defs str_int_1)

lemma sold_db_eq:
  "sold_db =
      \<lparr>products = [\<lparr>p_id = 1, p_name = ''P'', p_description = None, p_price = 10,
                    p_currency = Some ''USD'', p_sku = None, p_stock = Some 2\<rparr>],
       cart_items = [],
       orders = [\<lparr>o_id = 1, o_user_id = 7, o_total_amount = 30, o_currency = ''USD'',
                  o_status = ''PAID'',
                  o_invoice_path = Some ''./invoices/invoice_order_1.pdf''\<rparr>],
       order_items = [\<lparr>oi_id = 1, oi_order_id = 1, oi_product_id = 1,
                       oi_name_snapshot = ''P'', oi_unit_price = 10, oi_quantity = 3,
                       oi_subtotal = 30\<rparr>]\<rparr>"
  by (simp add: sold_db_def run_def checkout_cart_db)

lemma busy_db_eq:
  "busy_db =
      \<lparr>products = [\<lparr>p_id = 1, p_name = ''P'', p_description = None, p_price = 10,
                    p_currency = Some ''USD'', p_sku = None, p_stock = Some 2\<rparr>],
       cart_items = [\<lparr>ci_id = 1, ci_user_id = 7, ci_product_id = 1, ci_quantity = 2\<rparr>],
       orders = [\<lparr>o_id = 1, o_user_id = 7, o_total_amount = 30, o_currency = ''USD'',
                  o_status = ''PAID'',
                  o_invoice_path = Some ''./invoices/invoice_order_1.pdf''\<rparr>],
       order_items = [\<lparr>oi_id = 1, oi_order_id = 1, oi_product_id = 1,
                       oi_name_snapshot = ''P'', oi_unit_price = 10, oi_quantity = 3,
                       oi_subtotal = 30\<rparr>]\<rparr>"
  by (simp add: busy_db_def sold_db_eq eval_defs)

lemma mixed_db_eq:
  "mixed_db =
     \<lparr>products = [\<lparr>p_id = 1, p_name = ''P'', p_description = None, p_price = 10,
                    p_currency = Some ''EUR'', p_sku = None, p_stock = Some 5\<rparr>,
                  \<lparr>p_id = 2, p_name = ''Q'', p_description = None, p_price = 10,
                    p_currency = Some '''', p_sku = None, p_stock = Some 5\<rparr>],
      cart_items = [\<lparr>ci_id = 1, ci_user_id = 7, ci_product_id = 1, ci_quantity = 1\<rparr>,
                    \<lparr>ci_id = 2, ci_user_id = 7, ci_product_id = 2, ci_quantity = 1\<rparr>],
      orders = [], order_items = []\<rparr>"
  by (simp add: mixed_db_def product_P_def eval_defs)

lemma checkout_mixed_db:
  "checkout exact_ops invoice_file mixed_db 7 =
     (Inr \<lparr>co_order_id = 1, co_total_amount = 20, co_currency = ''EUR'',
           co_invoice_url = ''/orders/1/invoice''\<rparr>,
      \<lparr>products = [\<lparr>p_id = 1, p_name = ''P'', p_description = None, p_price = 10,
                    p_currency = Some ''EUR'', p_sku = None, p_stock = Some 4\<rparr>,
                  \<lparr>p_id = 2, p_name = ''Q'', p_description = None, p_price = 10,
                    p_currency = Some '''', p_sku = None, p_stock = Some 4\<rparr>],
       cart_items = [],
       orders = [\<lparr>o_id = 1, o_user_id = 7, o_total_amount = 20, o_currency = ''EUR'',
                  o_status = ''PAID'',
                  o_invoice_path = Some ''./invoices/invoice_order_1.pdf''\<rparr>],
       order_items = [\<lparr>oi_id = 1, oi_order_id = 1, oi_product_id = 1,
                       oi_name_snapshot = ''P'', oi_unit_price = 10, oi_quantity = 1,
                       oi_subtotal = 10\<rparr>,
                      \<lparr>oi_id = 2, oi_order_id = 1, oi_product_id = 2,
                       oi_name_snapshot = ''Q'', oi_unit_price = 10, oi_quantity = 1,
                       oi_subtotal = 10\<rparr>]\<rparr>)"
  by (simp add: mixed_db_eq eval_defs str_int_1)

lemma update_name_and_price:
  "update_product stocked_db 1 name_and_price =
     (Inr \<lparr>p_id = 1, p_name = ''Q'', p_description = None, p_price = 12,
           p_currency = Some ''USD'', p_sku = None, p_stock = Some 0\<rparr>,
      \<lparr>products = [\<lparr>p_id = 1, p_name = ''Q'', p_description = None, p_price = 12,
                    p_currency = Some ''USD'', p_sku = None, p_stock = Some 0\<rparr>],
       cart_items = [], orders = [], order_items = []\<rparr>)"
  by (simp add: update_product_def stocked_db_def name_and_price_def get_Product_def
      ProductCreate_def sku_taken_def set_fields_def)

lemma delete_sold_db:
  "delete_product sold_db 1 =
     (Inr (),
      \<lparr>products = [], cart_items = [],
       orders = [\<lparr>o_id = 1, o_user_id = 7, o_total_amount = 30, o_currency = ''USD'',
                  o_status = ''PAID'',
                  o_invoice_path = Some ''./invoices/invoice_order_1.pdf''\<rparr>],
       order_items = []\<rparr>)"
  by (simp add: sold_db_eq delete_product_def get_Product_def)

lemma update_sold_db:
  "update_product sold_db 1 pricier_P =
     (Inr \<lparr>p_id = 1, p_name = ''P'', p_description = None, p_price = 99,
           p_currency = Some ''USD'', p_sku = None, p_stock = Some 2\<rparr>,
      \<lparr>products = [\<lparr>p_id = 1, p_name = ''P'', p_description = None, p_price = 99,
                    p_currency = Some ''USD'', p_sku = None, p_stock = Some 2\<rparr>],
       cart_items = [],
       orders = [\<lparr>o_id = 1, o_user_id = 7, o_total_amount = 30, o_currency = ''USD'',
                  o_status = ''PAID'',
                  o_invoice_path = Some ''./invoices/invoice_order_1.pdf''\<rparr>],
       order_items = [\<lparr>oi_id = 1, oi_order_id = 1, oi_product_id = 1,
                       oi_name_snapshot = ''P'', oi_unit_price = 10, oi_quantity = 3,
                       oi_subtotal = 30\<rparr>]\<rparr>)"
  by (simp add: sold_db_eq pricier_P_def update_product_def get_Product_def ProductCreate_def
      sku_taken_def set_fields_def)

lemma add_three_two_db:
  "add_to_cart exact_ops two_db 7 \<lparr>ca_product_id = 1, ca_quantity = 3\<rparr> =
     (Inr \<lparr>cio_id = 1, cio_product_id = 1, cio_product_name = ''P'', cio_unit_price = 10,
           cio_quantity = 5, cio_subtotal = 50\<rparr>,
      \<lparr>products = [\<lparr>p_id = 1, p_name = ''P'', p_description = None, p_price = 10,
                    p_currency = Some ''USD'', p_sku = None, p_stock = Some 5\<rparr>],
       cart_items = [\<lparr>ci_id = 1, ci_user_id = 7, ci_product_id = 1, ci_quantity = 5\<rparr>],
       orders = [], order_items = []\<rparr>)"
  by (simp add: two_db_eq add_to_cart_def get_Product_def not_enough_stock_def CartItemOut_def
      exact_ops_def)

lemma mixed_db_linked: "order_items_linked mixed_db"
  by (simp add: order_items_linked_def mixed_db_eq)

section \<open>The outcomes of checkout\<close>

lemma checkout_items_frame:
  "checkout_items F oid cart d = Inr d2 \<Longrightarrow> orders d2 = orders d \<and> cart_items d2 = cart_items d"
proof (induction cart arbitrary: d)
  case Nil
  then show ?case by simp
next
  case (Cons ci items)
  from Cons.prems obtain product where "get_Product d (ci_product_id ci) = Some product"
    by (auto split: option.splits)
  with Cons.prems Cons.IH show ?case
    by (fastforce simp: Let_def)
qed

lemma find_placed:
  "find (\<lambda>r. o_id r = next_id (map o_id (orders d))) (orders d @ [placed_order d uid tot cur]) =
     Some (placed_order d uid tot cur)"
  by (rule find_append_fresh) (simp_all add: next_id_fresh_map placed_order_def)

lemma map_invoice_placed:
  "map (\<lambda>r. if o_id r = next_id (map o_id os) then r\<lparr>o_invoice_path := Some path\<rparr> else r) os = os"
proof -
  have "\<forall>r\<in>set os. o_id r \<noteq> next_id (map o_id os)"
    by (simp add: next_id_fresh_map)
  then show ?thesis by (simp add: map_idI)
qed

lemma checkout_success:
  assumes "checkout F g d uid = (Inr out, d')"
  shows "\<exists>tot cur d2 path.
           cart_of d uid \<noteq> [] \<and>
           checkout_validate F d (cart_of d uid) (f_zero F) ''USD'' = Inr (tot, cur) \<and>
           checkout_items F (next_id (map o_id (orders d))) (cart_of d uid)
             (d\<lparr>orders := orders d @ [placed_order d uid tot cur]\<rparr>) = Inr d2 \<and>
           orders d' = orders d @ [(placed_order d uid tot cur)\<lparr>o_invoice_path := Some path\<rparr>] \<and>
           cart_items d' = filter (\<lambda>c. ci_user_id c \<noteq> uid) (cart_items d) \<and>
           products d' = products d2 \<and>
           order_items d' = order_items d2 \<and>
           out = \<lparr>co_order_id = next_id (map o_id (orders d)),
                  co_total_amount = tot,
                  co_currency = cur,
                  co_invoice_url = ''/orders/'' @ str_int (next_id (map o_id (orders d))) @ ''/invoice''\<rparr>"
proof -
  let ?cart = "cart_of d uid"
  let ?oid = "next_id (map o_id (orders d))"
  from assms have ne: "?cart \<noteq> []"
    by (auto simp: checkout_def Let_def split: if_splits)
  from assms ne obtain tot cur where
    v: "checkout_validate F d ?cart (f_zero F) ''USD'' = Inr (tot, cur)"
    by (cases "checkout_validate F d ?cart (f_zero F) ''USD''") (auto simp: checkout_def Let_def)
  let ?order = "placed_order d uid tot cur"
  let ?d1 = "d\<lparr>orders := orders d @ [?order]\<rparr>"
  have oid: "o_id ?order = ?oid" by (simp add: placed_order_def)
  from assms ne v obtain d2 where i: "checkout_items F ?oid ?cart ?d1 = Inr d2"
    by (cases "checkout_items F ?oid ?cart ?d1")
       (auto simp: checkout_def Let_def placed_order_def)
  from checkout_items_frame [OF i] have fr: "orders d2 = orders d @ [?order]"
    "cart_items d2 = cart_items d" by simp_all
  let ?d3 = "d2\<lparr>cart_items := filter (\<lambda>c. ci_user_id c \<noteq> uid) (cart_items d2)\<rparr>"
  have get: "get_Order ?d3 ?oid = Some ?order"
    by (simp add: get_Order_def fr find_placed)
  from assms ne v i get obtain path where
    g: "g ?order (items_of ?d3 ?oid) = Inr path"
    by (cases "g ?order (items_of ?d3 ?oid)")
       (auto simp: checkout_def Let_def placed_order_def)
  from assms ne v i get g have
    d': "d' = ?d3\<lparr>orders := map (\<lambda>r. if o_id r = ?oid then r\<lparr>o_invoice_path := Some path\<rparr> else r)
                   (orders ?d3)\<rparr>"
    and out: "out = \<lparr>co_order_id = ?oid, co_total_amount = tot, co_currency = cur,
                  co_invoice_url = ''/orders/'' @ str_int ?oid @ ''/invoice''\<rparr>"
    by (auto simp: checkout_def Let_def placed_order_def)
  have "orders d' = orders d @ [?order\<lparr>o_invoice_path := Some path\<rparr>]"
    by (simp add: d' fr map_invoice_placed oid)
  moreover have "cart_items d' = filter (\<lambda>c. ci_user_id c \<noteq> uid) (cart_items d)"
    by (simp add: d' fr)
  moreover have "products d' = products d2" "order_items d' = order_items d2"
    by (simp_all add: d')
  ultimately show ?thesis using ne v i out by blast
qed

lemma checkout_outcome:
  "snd (checkout F g d uid) = d \<or>
   (\<exists>tot cur. snd (checkout F g d uid) = d\<lparr>orders := orders d @ [placed_order d uid tot cur]\<rparr>) \<or>
   (\<exists>tot cur d2 os.
      checkout_items F (next_id (map o_id (orders d))) (cart_of d uid)
        (d\<lparr>orders := orders d @ [placed_order d uid tot cur]\<rparr>) = Inr d2 \<and>
      map o_id os = map o_id (orders d2) \<and>
      snd (checkout F g d uid) =
        d2\<lparr>cart_items := filter (\<lambda>c. ci_user_id c \<noteq> uid) (cart_items d2), orders := os\<rparr>)"
proof (cases "cart_of d uid = []")
  case True
  then show ?thesis by (simp add: checkout_def)
next
  case ne: False
  show ?thesis
  proof (cases "checkout_validate F d (cart_of d uid) (f_zero F) ''USD''")
    case (Inl e)
    with ne show ?thesis by (simp add: checkout_def)
  next
    case (Inr tc)
    obtain tot cur where tc: "tc = (tot, cur)" by (cases tc)
    let ?oid = "next_id (map o_id (orders d))"
    let ?d1 = "d\<lparr>orders := orders d @ [placed_order d uid tot cur]\<rparr>"
    show ?thesis
    proof (cases "checkout_items F ?oid (cart_of d uid) ?d1")
      case (Inl e)
      with ne Inr tc have "snd (checkout F g d uid) = ?d1"
        by (simp add: checkout_def Let_def placed_order_def)
      then show ?thesis by blast
    next
      case items: (Inr d2)
      let ?d3 = "d2\<lparr>cart_items := filter (\<lambda>c. ci_user_id c \<noteq> uid) (cart_items d2)\<rparr>"
      have d3: "?d3 = d2\<lparr>cart_items := filter (\<lambda>c. ci_user_id c \<noteq> uid) (cart_items d2),
                         orders := orders d2\<rparr>"
        by simp
      have "\<exists>os. map o_id os = map o_id (orders d2) \<and>
              snd (checkout F g d uid) =
                d2\<lparr>cart_items := filter (\<lambda>c. ci_user_id c \<noteq> uid) (cart_items d2), orders := os\<rparr>"
      proof (cases "get_Order ?d3 ?oid")
        case None
        with ne Inr tc items have "snd (checkout F g d uid) = ?d3"
          by (simp add: checkout_def Let_def placed_order_def)
        with d3 show ?thesis by metis
      next
        case (Some ord')
        show ?thesis
        proof (cases "g ord' (items_of ?d3 (o_id ord'))")
          case (Inl e)
          with ne Inr tc items Some have "snd (checkout F g d uid) = ?d3"
            by (simp add: checkout_def Let_def placed_order_def)
          with d3 show ?thesis by metis
        next
          case path: (Inr path)
          let ?os = "map (\<lambda>r. if o_id r = o_id ord' then r\<lparr>o_invoice_path := Some path\<rparr> else r)
                       (orders d2)"
          from ne Inr tc items Some path have
            "snd (checkout F g d uid) =
               d2\<lparr>cart_items := filter (\<lambda>c. ci_user_id c \<noteq> uid) (cart_items d2), orders := ?os\<rparr>"
            by (simp add: checkout_def Let_def placed_order_def)
          moreover have "map o_id ?os = map o_id (orders d2)"
            by (simp add: comp_def cong: map_cong)
          ultimately show ?thesis by blast
        qed
      qed
      with items show ?thesis by blast
    qed
  qed
qed

lemma checkout_cart_items:
  "cart_items (snd (checkout F g d uid)) = cart_items d \<or>
   cart_items (snd (checkout F g d uid)) = filter (\<lambda>c. ci_user_id c \<noteq> uid) (cart_items d)"
proof -
  from checkout_outcome [of F g d uid] consider
    "snd (checkout F g d uid) = d"
    | tot cur where "snd (checkout F g d uid) = d\<lparr>orders := orders d @ [placed_order d uid tot cur]\<rparr>"
    | tot cur d2 os where
      "checkout_items F (next_id (map o_id (orders d))) (cart_of d uid)
        (d\<lparr>orders := orders d @ [placed_order d uid tot cur]\<rparr>) = Inr d2"
      "snd (checkout F g d uid) =
        d2\<lparr>cart_items := filter (\<lambda>c. ci_user_id c \<noteq> uid) (cart_items d2), orders := os\<rparr>"
    by blast
  then show ?thesis
  proof cases
    case 1
    then show ?thesis by simp
  next
    case 2
    then show ?thesis by simp
  next
    case 3
    from checkout_items_frame [OF 3(1)] have "cart_items d2 = cart_items d" by simp
    with 3(2) show ?thesis by simp
  qed
qed

section \<open>The two loops of checkout\<close>

lemma checkout_validate_prefix:
  assumes "\<forall>c\<in>set pre. \<exists>p. get_Product d (ci_product_id c) = Some p \<and>
             \<not> not_enough_stock (p_stock p) (ci_quantity c)"
  shows "\<exists>t' c'. checkout_validate F d (pre @ rest) t c = checkout_validate F d rest t' c'"
  using assms
proof (induction pre arbitrary: t c)
  case Nil
  then show ?case by auto
next
  case (Cons x pre)
  from Cons.prems obtain p where
    p: "get_Product d (ci_product_id x) = Some p"
       "\<not> not_enough_stock (p_stock p) (ci_quantity x)"
    by auto
  from Cons.prems have "\<forall>c\<in>set pre. \<exists>p. get_Product d (ci_product_id c) = Some p \<and>
             \<not> not_enough_stock (p_stock p) (ci_quantity c)"
    by simp
  from Cons.IH [OF this] show ?case using p by simp
qed

lemma reduce_stock_keeps [simp]:
  "p_id (reduce_stock q r) = p_id r"
  "p_name (reduce_stock q r) = p_name r"
  "p_price (reduce_stock q r) = p_price r"
  "p_currency (reduce_stock q r) = p_currency r"
  by (simp_all add: reduce_stock_def split: option.splits)

lemma get_Product_sold:
  "get_Product (d\<lparr>order_items := its,
                  products := map (\<lambda>r. if p_id r = k then reduce_stock q r else r) (products d)\<rparr>) i =
     map_option (\<lambda>r. if p_id r = k then reduce_stock q r else r) (get_Product d i)"
  by (simp add: get_Product_def find_map_keep)

lemma line_total_sold:
  "line_total F (d\<lparr>order_items := its,
                   products := map (\<lambda>r. if p_id r = k then reduce_stock q r else r) (products d)\<rparr>) =
     line_total F d"
  by (rule ext) (simp add: line_total_def get_Product_sold split: option.splits)

lemma line_total_orders [simp]: "line_total F (d\<lparr>orders := os\<rparr>) = line_total F d"
  by (rule ext) (simp add: line_total_def get_Product_def)

lemma checkout_validate_total:
  "checkout_validate F d cart t c = Inr (t', c') \<Longrightarrow>
     t' = foldl (f_add F) t (map (line_total F d) cart)"
proof (induction cart arbitrary: t c)
  case Nil
  then show ?case by simp
next
  case (Cons ci items)
  from Cons.prems obtain p where p: "get_Product d (ci_product_id ci) = Some p"
    by (auto split: option.splits)
  with Cons.prems have
    "checkout_validate F d items (f_add F t (f_mul F (p_price p) (ci_quantity ci)))
       (py_or (p_currency p) c) = Inr (t', c')"
    by (auto split: if_splits)
  from Cons.IH [OF this] show ?case using p by (simp add: line_total_def)
qed

lemma checkout_items_new:
  "checkout_items F oid cart d = Inr d2 \<Longrightarrow>
     \<exists>new. order_items d2 = order_items d @ new \<and>
           map oi_order_id new = map (\<lambda>_. oid) cart \<and>
           map oi_subtotal new = map (line_total F d) cart \<and>
           map oi_quantity new = map ci_quantity cart \<and>
           map oi_product_id new = map ci_product_id cart \<and>
           (\<forall>it\<in>set new. oi_subtotal it = f_mul F (oi_unit_price it) (oi_quantity it))"
proof (induction cart arbitrary: d)
  case Nil
  then show ?case by simp
next
  case (Cons ci items)
  from Cons.prems obtain p where p: "get_Product d (ci_product_id ci) = Some p"
    by (auto split: option.splits)
  define oi where "oi = \<lparr>oi_id = next_id (map oi_id (order_items d)),
                    oi_order_id = oid,
                    oi_product_id = p_id p,
                    oi_name_snapshot = p_name p,
                    oi_unit_price = p_price p,
                    oi_quantity = ci_quantity ci,
                    oi_subtotal = f_mul F (p_price p) (ci_quantity ci)\<rparr>"
  define ds where "ds = d\<lparr>order_items := order_items d @ [oi],
      products := map (\<lambda>r. if p_id r = p_id p then reduce_stock (ci_quantity ci) r else r)
                    (products d)\<rparr>"
  from Cons.prems p have "checkout_items F oid items ds = Inr d2"
    by (simp add: Let_def ds_def oi_def)
  from Cons.IH [OF this] obtain new where new:
    "order_items d2 = order_items ds @ new"
    "map oi_order_id new = map (\<lambda>_. oid) items"
    "map oi_subtotal new = map (line_total F ds) items"
    "map oi_quantity new = map ci_quantity items"
    "map oi_product_id new = map ci_product_id items"
    "\<forall>it\<in>set new. oi_subtotal it = f_mul F (oi_unit_price it) (oi_quantity it)"
    by blast
  have lt: "line_total F ds = line_total F d"
    unfolding ds_def by (rule line_total_sold)
  have pid: "p_id p = ci_product_id ci" using p by (rule get_Product_id)
  have "order_items d2 = order_items d @ (oi # new)"
    using new(1) by (simp add: ds_def)
  moreover have "map oi_order_id (oi # new) = map (\<lambda>_. oid) (ci # items)"
    using new(2) by (simp add: oi_def)
  moreover have "map oi_subtotal (oi # new) = map (line_total F d) (ci # items)"
    using new(3) lt p by (simp add: oi_def line_total_def)
  moreover have "map oi_quantity (oi # new) = map ci_quantity (ci # items)"
    using new(4) by (simp add: oi_def)
  moreover have "map oi_product_id (oi # new) = map ci_product_id (ci # items)"
    using new(5) pid by (simp add: oi_def)
  moreover have "\<forall>it\<in>set (oi # new). oi_subtotal it = f_mul F (oi_unit_price it) (oi_quantity it)"
    using new(6) by (simp add: oi_def)
  ultimately show ?case by blast
qed

lemma checkout_order_items:
  assumes ok: "checkout F g d uid = (Inr out, d')"
    and linked: "order_items_linked d"
  shows "\<exists>new. order_items d' = order_items d @ new \<and>
           items_of d' (co_order_id out) = new \<and>
           map oi_subtotal new = map (line_total F d) (cart_of d uid) \<and>
           map oi_quantity new = map ci_quantity (cart_of d uid) \<and>
           map oi_product_id new = map ci_product_id (cart_of d uid) \<and>
           (\<forall>it\<in>set new. oi_subtotal it = f_mul F (oi_unit_price it) (oi_quantity it))"
proof -
  let ?oid = "next_id (map o_id (orders d))"
  from checkout_success [OF ok] obtain tot cur d2 path where
    i: "checkout_items F ?oid (cart_of d uid)
          (d\<lparr>orders := orders d @ [placed_order d uid tot cur]\<rparr>) = Inr d2" and
    its: "order_items d' = order_items d2" and
    out: "co_order_id out = ?oid"
    by force
  from checkout_items_new [OF i] obtain new where new:
    "order_items d2 = order_items d @ new"
    "map oi_order_id new = map (\<lambda>_. ?oid) (cart_of d uid)"
    "map oi_subtotal new = map (line_total F d) (cart_of d uid)"
    "map oi_quantity new = map ci_quantity (cart_of d uid)"
    "map oi_product_id new = map ci_product_id (cart_of d uid)"
    "\<forall>it\<in>set new. oi_subtotal it = f_mul F (oi_unit_price it) (oi_quantity it)"
    by auto
  have old: "filter (\<lambda>it. oi_order_id it = ?oid) (order_items d) = []"
  proof -
    have "oi_order_id it \<noteq> ?oid" if "it \<in> set (order_items d)" for it
    proof
      assume e: "oi_order_id it = ?oid"
      from that linked have "oi_order_id it \<in> set (map o_id (orders d))"
        unfolding order_items_linked_def by blast
      with e show False using next_id_fresh [of "map o_id (orders d)"] by simp
    qed
    then show ?thesis by (simp add: filter_empty_conv)
  qed
  have fresh: "filter (\<lambda>it. oi_order_id it = ?oid) new = new"
    using map_const_all [OF new(2)] by (simp add: filter_id_conv)
  have "items_of d' (co_order_id out) = new"
    by (simp add: items_of_def its new(1) out old fresh)
  with its new show ?thesis by simp
qed

lemma find_truthy_snoc:
  "find truthy (xs @ [x]) =
     (case find truthy xs of Some y \<Rightarrow> Some y | None \<Rightarrow> if truthy x then Some x else None)"
  by (induction xs) auto

lemma winning_currency_Cons:
  "winning_currency (x # xs) c = winning_currency xs (py_or x c)"
proof (cases "find truthy (rev xs)")
  case None
  then show ?thesis
    by (cases x) (auto simp: winning_currency_def find_truthy_snoc truthy_def py_or_def)
next
  case (Some y)
  then have "truthy y" by (auto dest: find_Some_pred)
  then obtain s where "y = Some s" by (cases y) (auto simp: truthy_def)
  with Some show ?thesis
    by (simp add: winning_currency_def find_truthy_snoc)
qed

lemma checkout_validate_currency:
  "checkout_validate F d cart t c = Inr (t', c') \<Longrightarrow>
     c' = winning_currency (map (product_currency d) cart) c"
proof (induction cart arbitrary: t c)
  case Nil
  then show ?case by (simp add: winning_currency_def)
next
  case (Cons ci items)
  from Cons.prems obtain p where p: "get_Product d (ci_product_id ci) = Some p"
    by (auto split: option.splits)
  with Cons.prems have
    "checkout_validate F d items (f_add F t (f_mul F (p_price p) (ci_quantity ci)))
       (py_or (p_currency p) c) = Inr (t', c')"
    by (auto split: if_splits)
  from Cons.IH [OF this] show ?case
    using p by (simp add: winning_currency_Cons product_currency_def)
qed

lemma winning_currency_last:
  "xs \<noteq> [] \<Longrightarrow> last xs = Some c \<Longrightarrow> c \<noteq> [] \<Longrightarrow> winning_currency xs dflt = c"
  by (cases xs rule: rev_cases) (simp_all add: winning_currency_def truthy_def)

lemma reduce_stock_nonneg:
  "(case p_stock (reduce_stock q r) of None \<Rightarrow> True | Some s \<Rightarrow> 0 \<le> s)"
  by (simp add: reduce_stock_def split: option.splits)

lemma checkout_items_stock_nonneg:
  "checkout_items F oid cart d = Inr d2 \<Longrightarrow> stock_nonneg d \<Longrightarrow> stock_nonneg d2"
proof (induction cart arbitrary: d)
  case Nil
  then show ?case by simp
next
  case (Cons ci items)
  from Cons.prems(1) obtain p where p: "get_Product d (ci_product_id ci) = Some p"
    by (auto split: option.splits)
  define ds where "ds = d\<lparr>order_items := order_items d @
        [\<lparr>oi_id = next_id (map oi_id (order_items d)), oi_order_id = oid,
          oi_product_id = p_id p, oi_name_snapshot = p_name p, oi_unit_price = p_price p,
          oi_quantity = ci_quantity ci,
          oi_subtotal = f_mul F (p_price p) (ci_quantity ci)\<rparr>],
      products := map (\<lambda>r. if p_id r = p_id p then reduce_stock (ci_quantity ci) r else r)
                    (products d)\<rparr>"
  from Cons.prems(1) p have run: "checkout_items F oid items ds = Inr d2"
    by (simp add: Let_def ds_def)
  have "stock_nonneg ds"
    using Cons.prems(2)
    by (auto simp: stock_nonneg_def ds_def list_all_iff reduce_stock_nonneg)
  with run show ?case by (rule Cons.IH)
qed

lemma checkout_items_products:
  "checkout_items F oid cart d = Inr d2 \<Longrightarrow>
     products d2 =
       map (\<lambda>r. fold reduce_stock
                   (map ci_quantity (filter (\<lambda>c. ci_product_id c = p_id r) cart)) r)
         (products d)"
proof (induction cart arbitrary: d)
  case Nil
  then show ?case by simp
next
  case (Cons ci items)
  from Cons.prems obtain p where p: "get_Product d (ci_product_id ci) = Some p"
    by (auto split: option.splits)
  have pid: "p_id p = ci_product_id ci" using p by (rule get_Product_id)
  define ds where "ds = d\<lparr>order_items := order_items d @
        [\<lparr>oi_id = next_id (map oi_id (order_items d)), oi_order_id = oid,
          oi_product_id = p_id p, oi_name_snapshot = p_name p, oi_unit_price = p_price p,
          oi_quantity = ci_quantity ci,
          oi_subtotal = f_mul F (p_price p) (ci_quantity ci)\<rparr>],
      products := map (\<lambda>r. if p_id r = p_id p then reduce_stock (ci_quantity ci) r else r)
                    (products d)\<rparr>"
  from Cons.prems p have "checkout_items F oid items ds = Inr d2"
    by (simp add: Let_def ds_def)
  from Cons.IH [OF this] show ?case
    by (simp add: ds_def pid)
qed

section \<open>Tables that a route leaves alone\<close>

lemma cart_routes_keep_catalog:
  "products (snd (add_to_cart F d uid item)) = products d"
  "products (snd (update_cart_item F d uid item_id quantity)) = products d"
  "products (snd (remove_cart_item d uid item_id)) = products d"
  "products (snd (clear_cart d uid)) = products d"
  by (simp_all add: add_to_cart_def update_cart_item_def remove_cart_item_def clear_cart_def
      Let_def split: option.splits)

lemma cart_routes_keep_orders:
  "orders (snd (add_to_cart F d uid item)) = orders d"
  "order_items (snd (add_to_cart F d uid item)) = order_items d"
  "orders (snd (update_cart_item F d uid item_id quantity)) = orders d"
  "order_items (snd (update_cart_item F d uid item_id quantity)) = order_items d"
  "orders (snd (remove_cart_item d uid item_id)) = orders d"
  "order_items (snd (remove_cart_item d uid item_id)) = order_items d"
  "orders (snd (clear_cart d uid)) = orders d"
  "order_items (snd (clear_cart d uid)) = order_items d"
  by (simp_all add: add_to_cart_def update_cart_item_def remove_cart_item_def clear_cart_def
      Let_def split: option.splits)

lemma product_routes_keep_cart:
  "cart_items (snd (create_product d body)) = cart_items d"
  "cart_items (snd (update_product d product_id body)) = cart_items d"
  "cart_items (snd (delete_product d product_id)) = cart_items d"
  by (simp_all add: create_product_def update_product_def delete_product_def
      Let_def split: option.splits)

lemma product_routes_keep_orders:
  "orders (snd (create_product d body)) = orders d"
  "order_items (snd (create_product d body)) = order_items d"
  "orders (snd (update_product d product_id body)) = orders d"
  "order_items (snd (update_product d product_id body)) = order_items d"
  "orders (snd (delete_product d product_id)) = orders d"
  by (simp_all add: create_product_def update_product_def delete_product_def
      Let_def split: option.splits)

section \<open>What every sequence of requests keeps\<close>

lemma checkout_stock_nonneg:
  assumes "stock_nonneg d"
  shows "stock_nonneg (snd (checkout F g d uid))"
proof -
  from checkout_outcome [of F g d uid] consider
    "snd (checkout F g d uid) = d"
    | tot cur where "snd (checkout F g d uid) = d\<lparr>orders := orders d @ [placed_order d uid tot cur]\<rparr>"
    | tot cur d2 os where
      "checkout_items F (next_id (map o_id (orders d))) (cart_of d uid)
        (d\<lparr>orders := orders d @ [placed_order d uid tot cur]\<rparr>) = Inr d2"
      "snd (checkout F g d uid) =
        d2\<lparr>cart_items := filter (\<lambda>c. ci_user_id c \<noteq> uid) (cart_items d2), orders := os\<rparr>"
    by blast
  then show ?thesis
  proof cases
    case 1
    with assms show ?thesis by simp
  next
    case 2
    with assms show ?thesis by (simp add: stock_nonneg_def)
  next
    case 3
    have "stock_nonneg (d\<lparr>orders := orders d @ [placed_order d uid tot cur]\<rparr>)"
      using assms by (simp add: stock_nonneg_def)
    with 3(1) have "stock_nonneg d2" by (rule checkout_items_stock_nonneg)
    then show ?thesis by (simp add: 3(2) stock_nonneg_def)
  qed
qed

lemma serve_stock_nonneg:
  assumes "stock_nonneg d" and "stock_request_ok req"
  shows "stock_nonneg (serve F g d req)"
proof (cases req)
  case (CreateProduct body)
  with assms show ?thesis
    by (simp add: create_product_def stock_nonneg_def stock_request_ok_def Let_def)
next
  case (UpdateProduct product_id body)
  with assms show ?thesis
    by (auto simp: update_product_def stock_nonneg_def stock_request_ok_def Let_def
        set_fields_def list_all_iff split: option.splits)
next
  case (DeleteProduct product_id)
  with assms show ?thesis
    by (auto simp: delete_product_def stock_nonneg_def list_all_iff split: option.splits)
next
  case (AddToCart uid item)
  with assms show ?thesis by (simp add: stock_nonneg_def cart_routes_keep_catalog)
next
  case (UpdateCartItem uid item_id quantity)
  with assms show ?thesis by (simp add: stock_nonneg_def cart_routes_keep_catalog)
next
  case (RemoveCartItem uid item_id)
  with assms show ?thesis by (simp add: stock_nonneg_def cart_routes_keep_catalog)
next
  case (ClearCart uid)
  with assms show ?thesis by (simp add: stock_nonneg_def cart_routes_keep_catalog)
next
  case (Checkout uid)
  with assms show ?thesis by (simp add: checkout_stock_nonneg)
qed

lemma run_stock_nonneg:
  "stock_nonneg d \<Longrightarrow> list_all stock_request_ok reqs \<Longrightarrow> stock_nonneg (run F g d reqs)"
  unfolding run_def
  by (induction reqs arbitrary: d) (simp_all add: serve_stock_nonneg)

lemma pairing_key:
  "pairing d uid product_id =
     filter (\<lambda>c. (ci_user_id c, ci_product_id c) = (uid, product_id)) (cart_items d)"
  by (simp add: pairing_def)

lemma cart_key_comp:
  "map ((\<lambda>c. (ci_user_id c, ci_product_id c)) \<circ>
        (\<lambda>c. if P c then c\<lparr>ci_quantity := q c\<rparr> else c)) xs =
   map (\<lambda>c. (ci_user_id c, ci_product_id c)) xs"
  by (induction xs) auto

lemma cart_unique_pairing: "cart_unique d \<Longrightarrow> length (pairing d uid product_id) \<le> 1"
  unfolding cart_unique_def pairing_key by (rule distinct_key_filter)

lemma add_to_cart_cart_unique:
  assumes "cart_unique d"
  shows "cart_unique (snd (add_to_cart F d uid item))"
proof (cases "find (\<lambda>c. ci_user_id c = uid \<and> ci_product_id c = ca_product_id item) (cart_items d)")
  case None
  then have "(uid, ca_product_id item) \<notin> set (map (\<lambda>c. (ci_user_id c, ci_product_id c)) (cart_items d))"
    by (auto simp: find_None_iff)
  with assms None show ?thesis
    by (auto simp: add_to_cart_def cart_unique_def Let_def split: option.splits)
next
  case (Some existing)
  with assms show ?thesis
    by (auto simp: add_to_cart_def cart_unique_def Let_def cart_key_comp split: option.splits)
qed

lemma serve_cart_unique:
  assumes "cart_unique d"
  shows "cart_unique (serve F g d req)"
proof (cases req)
  case (CreateProduct body)
  with assms show ?thesis by (simp add: cart_unique_def product_routes_keep_cart)
next
  case (UpdateProduct product_id body)
  with assms show ?thesis by (simp add: cart_unique_def product_routes_keep_cart)
next
  case (DeleteProduct product_id)
  with assms show ?thesis by (simp add: cart_unique_def product_routes_keep_cart)
next
  case (AddToCart uid item)
  with assms show ?thesis by (simp add: add_to_cart_cart_unique)
next
  case (UpdateCartItem uid item_id quantity)
  with assms show ?thesis
    by (auto simp: update_cart_item_def cart_unique_def cart_key_comp split: option.splits)
next
  case (RemoveCartItem uid item_id)
  with assms show ?thesis
    by (auto simp: remove_cart_item_def cart_unique_def distinct_map_filter split: option.splits)
next
  case (ClearCart uid)
  with assms show ?thesis
    by (simp add: clear_cart_def cart_unique_def distinct_map_filter)
next
  case (Checkout uid)
  with assms checkout_cart_items [of F g d uid] show ?thesis
    by (auto simp: cart_unique_def distinct_map_filter)
qed

lemma run_cart_unique: "cart_unique d \<Longrightarrow> cart_unique (run F g d reqs)"
  unfolding run_def
  by (induction reqs arbitrary: d) (simp_all add: serve_cart_unique)

lemma add_to_cart_merges:
  assumes uniq: "cart_unique d"
    and ok: "add_to_cart F d uid item = (Inr out, d')"
  shows "\<exists>c. pairing d' uid (ca_product_id item) = [c] \<and>
             ci_quantity c =
               sum_list (map ci_quantity (pairing d uid (ca_product_id item))) + ca_quantity item \<and>
             cio_quantity out = ci_quantity c"
proof -
  let ?key = "\<lambda>c. (ci_user_id c, ci_product_id c)"
  let ?k = "(uid, ca_product_id item)"
  from ok obtain product where
    product: "get_Product d (ca_product_id item) = Some product" and
    stock: "\<not> not_enough_stock (p_stock product) (ca_quantity item)" and
    valid: "\<not> ca_quantity item < 1"
    by (auto simp: add_to_cart_def split: if_splits option.splits)
  have find_key: "find (\<lambda>c. ci_user_id c = uid \<and> ci_product_id c = ca_product_id item) (cart_items d) =
      find (\<lambda>c. ?key c = ?k) (cart_items d)"
    by simp
  show ?thesis
  proof (cases "find (\<lambda>c. ?key c = ?k) (cart_items d)")
    case None
    then have old: "pairing d uid (ca_product_id item) = []"
      by (auto simp: pairing_def find_None_iff filter_empty_conv)
    from ok product stock valid None have
      "cart_items d' = cart_items d @
         [\<lparr>ci_id = next_id (map ci_id (cart_items d)), ci_user_id = uid,
           ci_product_id = ca_product_id item, ci_quantity = ca_quantity item\<rparr>]"
      and "cio_quantity out = ca_quantity item"
      by (auto simp: add_to_cart_def Let_def CartItemOut_def)
    with old show ?thesis
      by (simp add: pairing_def)
  next
    case (Some existing)
    let ?bump = "\<lambda>c. if ci_id c = ci_id existing
                     then c\<lparr>ci_quantity := ci_quantity c + ca_quantity item\<rparr> else c"
    from uniq Some have old: "pairing d uid (ca_product_id item) = [existing]"
      unfolding cart_unique_def pairing_key by (rule find_unique_filter)
    from ok product stock valid Some have
      d': "cart_items d' = map ?bump (cart_items d)"
      and out: "cio_quantity out = ci_quantity existing + ca_quantity item"
      by (auto simp: add_to_cart_def Let_def CartItemOut_def)
    have "pairing d' uid (ca_product_id item) =
            map ?bump (pairing d uid (ca_product_id item))"
      by (simp add: pairing_def d' filter_map comp_def cong: filter_cong)
    with old out show ?thesis by simp
  qed
qed

lemma checkout_linked:
  assumes "order_items_linked d"
  shows "order_items_linked (snd (checkout F g d uid))"
proof -
  let ?oid = "next_id (map o_id (orders d))"
  from checkout_outcome [of F g d uid] consider
    "snd (checkout F g d uid) = d"
    | tot cur where "snd (checkout F g d uid) = d\<lparr>orders := orders d @ [placed_order d uid tot cur]\<rparr>"
    | tot cur d2 os where
      "checkout_items F ?oid (cart_of d uid)
        (d\<lparr>orders := orders d @ [placed_order d uid tot cur]\<rparr>) = Inr d2"
      "map o_id os = map o_id (orders d2)"
      "snd (checkout F g d uid) =
        d2\<lparr>cart_items := filter (\<lambda>c. ci_user_id c \<noteq> uid) (cart_items d2), orders := os\<rparr>"
    by blast
  then show ?thesis
  proof cases
    case 1
    with assms show ?thesis by simp
  next
    case 2
    with assms show ?thesis by (auto simp: order_items_linked_def)
  next
    case 3
    from checkout_items_frame [OF 3(1)] have
      os: "orders d2 = orders d @ [placed_order d uid tot cur]"
      by simp
    from checkout_items_new [OF 3(1)] obtain new where
      new: "order_items d2 = order_items d @ new"
        "map oi_order_id new = map (\<lambda>_. ?oid) (cart_of d uid)"
      by auto
    have ids: "set (map o_id os) = insert ?oid (set (map o_id (orders d)))"
      by (simp add: 3(2) os placed_order_def)
    have "oi_order_id it \<in> set (map o_id os)" if "it \<in> set (order_items d2)" for it
    proof (cases "it \<in> set new")
      case True
      with new(2) have "oi_order_id it = ?oid" by (rule map_const_all)
      then show ?thesis by (simp only: ids) simp
    next
      case False
      with that new(1) have "it \<in> set (order_items d)" by simp
      with assms have "oi_order_id it \<in> set (map o_id (orders d))"
        unfolding order_items_linked_def by blast
      then show ?thesis by (simp only: ids) simp
    qed
    then show ?thesis
      unfolding order_items_linked_def by (simp add: 3(3))
  qed
qed

lemma serve_linked:
  assumes "order_items_linked d"
  shows "order_items_linked (serve F g d req)"
proof (cases req)
  case (CreateProduct body)
  with assms show ?thesis by (simp add: order_items_linked_def product_routes_keep_orders)
next
  case (UpdateProduct product_id body)
  with assms show ?thesis by (simp add: order_items_linked_def product_routes_keep_orders)
next
  case (DeleteProduct product_id)
  with assms show ?thesis
    by (auto simp: order_items_linked_def delete_product_def split: option.splits)
next
  case (AddToCart uid item)
  with assms show ?thesis by (simp add: order_items_linked_def cart_routes_keep_orders)
next
  case (UpdateCartItem uid item_id quantity)
  with assms show ?thesis by (simp add: order_items_linked_def cart_routes_keep_orders)
next
  case (RemoveCartItem uid item_id)
  with assms show ?thesis by (simp add: order_items_linked_def cart_routes_keep_orders)
next
  case (ClearCart uid)
  with assms show ?thesis by (simp add: order_items_linked_def cart_routes_keep_orders)
next
  case (Checkout uid)
  with assms show ?thesis by (simp add: checkout_linked)
qed

lemma run_linked: "order_items_linked d \<Longrightarrow> order_items_linked (run F g d reqs)"
  unfolding run_def
  by (induction reqs arbitrary: d) (simp_all add: serve_linked)

lemma no_order_items_linked: "order_items d = [] \<Longrightarrow> order_items_linked d"
  by (simp add: order_items_linked_def)

section \<open>A checkout refused for stock changes nothing\<close>

text \<open>
  Claim C1. When a cart row asks for more than the tracked stock of its product (and the
  rows before it pass the test), \<^verbatim>\<open>checkout\<close> answers 400 with
  \<^verbatim>\<open>Not enough stock for <product name>\<close>, and the database it leaves is the one it
  was given: the products and their stock, the orders, the order items and the cart rows.
\<close>

theorem checkout_insufficient_stock_unchanged:
  assumes cart: "cart_of d uid = pre @ ci # post"
    and pre: "\<forall>c\<in>set pre. \<exists>p. get_Product d (ci_product_id c) = Some p \<and>
                \<not> not_enough_stock (p_stock p) (ci_quantity c)"
    and product: "get_Product d (ci_product_id ci) = Some product"
    and stock: "p_stock product = Some s"
    and exceeds: "ci_quantity ci > s"
  shows "checkout F g d uid =
           (Inl (HTTPException 400 (''Not enough stock for '' @ p_name product)), d)"
proof -
  from checkout_validate_prefix [OF pre] obtain t' c' where
    "checkout_validate F d (pre @ ci # post) (f_zero F) ''USD'' =
       checkout_validate F d (ci # post) t' c'"
    by blast
  also have "\<dots> = Inl (HTTPException 400 (''Not enough stock for '' @ p_name product))"
    using product stock exceeds by (simp add: not_enough_stock_def)
  finally show ?thesis
    using cart by (simp add: checkout_def)
qed

theorem checkout_insufficient_stock_unchanged_witness:
  "cart_of short_db 7 =
     [\<lparr>ci_id = 1, ci_user_id = 7, ci_product_id = 1, ci_quantity = 1\<rparr>,
      \<lparr>ci_id = 2, ci_user_id = 7, ci_product_id = 2, ci_quantity = 3\<rparr>] \<and>
   map p_stock (products short_db) = [Some 5, Some 2] \<and>
   checkout exact_ops invoice_file short_db 7 =
     (Inl (HTTPException 400 ''Not enough stock for Q''), short_db)"
  using checkout_insufficient_stock_unchanged
    [of short_db 7 "[\<lparr>ci_id = 1, ci_user_id = 7, ci_product_id = 1, ci_quantity = 1\<rparr>]"
        "\<lparr>ci_id = 2, ci_user_id = 7, ci_product_id = 2, ci_quantity = 3\<rparr>" "[]"
        "\<lparr>p_id = 2, p_name = ''Q'', p_description = None, p_price = 10,
          p_currency = Some ''USD'', p_sku = None, p_stock = Some 2\<rparr>" 2
        exact_ops invoice_file]
  by (simp add: short_db_eq cart_of_def get_Product_def not_enough_stock_def)

section \<open>The total of an order\<close>

text \<open>
  Claim C2. After a successful \<^verbatim>\<open>checkout\<close> the order it answers is stored, its
  \<^verbatim>\<open>total_amount\<close> is the sum of the subtotals of its order items, added from
  \<^verbatim>\<open>0.0\<close> in the order of the cart rows, and every one of its items has
  \<^verbatim>\<open>subtotal = unit_price * quantity\<close>. The items are one per cart row, with the
  row's product and quantity. The order items already stored are assumed to belong to
  stored orders, which every sequence of requests keeps true.
\<close>

theorem checkout_total_is_sum_of_subtotals:
  assumes ok: "checkout F g d uid = (Inr out, d')"
    and linked: "order_items_linked d"
  shows "\<exists>ord. get_Order d' (co_order_id out) = Some ord \<and>
           o_total_amount ord = co_total_amount out \<and>
           o_total_amount ord =
             foldl (f_add F) (f_zero F) (map oi_subtotal (items_of d' (o_id ord))) \<and>
           (\<forall>it\<in>set (items_of d' (o_id ord)).
              oi_subtotal it = f_mul F (oi_unit_price it) (oi_quantity it)) \<and>
           map (\<lambda>it. (oi_product_id it, oi_quantity it)) (items_of d' (o_id ord)) =
             map (\<lambda>c. (ci_product_id c, ci_quantity c)) (cart_of d uid)"
proof -
  let ?oid = "next_id (map o_id (orders d))"
  from checkout_success [OF ok] obtain tot cur path where
    v: "checkout_validate F d (cart_of d uid) (f_zero F) ''USD'' = Inr (tot, cur)" and
    os: "orders d' = orders d @ [(placed_order d uid tot cur)\<lparr>o_invoice_path := Some path\<rparr>]" and
    out: "co_order_id out = ?oid" "co_total_amount out = tot"
    by force
  let ?ord = "(placed_order d uid tot cur)\<lparr>o_invoice_path := Some path\<rparr>"
  have get: "get_Order d' (co_order_id out) = Some ?ord"
    unfolding get_Order_def os out
    by (rule find_append_fresh) (simp_all add: next_id_fresh_map placed_order_def)
  have oid: "o_id ?ord = co_order_id out" by (simp add: placed_order_def out)
  from checkout_order_items [OF ok linked] obtain new where new:
    "items_of d' (co_order_id out) = new"
    "map oi_subtotal new = map (line_total F d) (cart_of d uid)"
    "map oi_quantity new = map ci_quantity (cart_of d uid)"
    "map oi_product_id new = map ci_product_id (cart_of d uid)"
    "\<forall>it\<in>set new. oi_subtotal it = f_mul F (oi_unit_price it) (oi_quantity it)"
    by blast
  have tot: "tot = foldl (f_add F) (f_zero F) (map oi_subtotal new)"
    using checkout_validate_total [OF v] new(2) by simp
  have pairs: "map (\<lambda>it. (oi_product_id it, oi_quantity it)) new =
      map (\<lambda>c. (ci_product_id c, ci_quantity c)) (cart_of d uid)"
    by (simp add: map_pair_zip new(3,4))
  have "o_total_amount ?ord = co_total_amount out"
    by (simp add: placed_order_def out)
  moreover have "o_total_amount ?ord =
      foldl (f_add F) (f_zero F) (map oi_subtotal (items_of d' (o_id ?ord)))"
  proof -
    have "o_total_amount ?ord = tot" by (simp add: placed_order_def)
    also note tot
    finally show ?thesis by (simp only: oid new(1))
  qed
  moreover have "\<forall>it\<in>set (items_of d' (o_id ?ord)).
      oi_subtotal it = f_mul F (oi_unit_price it) (oi_quantity it)"
    using new(5) by (simp only: oid new(1))
  moreover have "map (\<lambda>it. (oi_product_id it, oi_quantity it)) (items_of d' (o_id ?ord)) =
      map (\<lambda>c. (ci_product_id c, ci_quantity c)) (cart_of d uid)"
    using pairs by (simp only: oid new(1))
  ultimately show ?thesis using get by blast
qed

theorem checkout_total_is_sum_of_subtotals_witness:
  "map oi_subtotal (items_of (snd (checkout exact_ops invoice_file mixed_db 7)) 1) = [10, 10] \<and>
   map o_total_amount (orders (snd (checkout exact_ops invoice_file mixed_db 7))) = [20] \<and>
   foldl (f_add exact_ops) (f_zero exact_ops)
     (map oi_subtotal (items_of (snd (checkout exact_ops invoice_file mixed_db 7)) 1)) = 20"
proof -
  let ?d' = "snd (checkout exact_ops invoice_file mixed_db 7)"
  let ?out = "\<lparr>co_order_id = 1, co_total_amount = 20::real, co_currency = ''EUR'',
                 co_invoice_url = ''/orders/1/invoice''\<rparr>"
  have ok: "checkout exact_ops invoice_file mixed_db 7 = (Inr ?out, ?d')"
    by (simp add: checkout_mixed_db)
  from checkout_total_is_sum_of_subtotals [OF ok mixed_db_linked] obtain ord where
    ord: "get_Order ?d' (co_order_id ?out) = Some ord" and
    tot: "o_total_amount ord = co_total_amount ?out" and
    sum: "o_total_amount ord =
            foldl (f_add exact_ops) (f_zero exact_ops) (map oi_subtotal (items_of ?d' (o_id ord)))"
    by blast
  from ord have "o_id ord = co_order_id ?out"
    by (auto simp: get_Order_def dest: find_Some_pred)
  with tot sum have
    "foldl (f_add exact_ops) (f_zero exact_ops) (map oi_subtotal (items_of ?d' 1)) = 20"
    by simp
  moreover have "map oi_subtotal (items_of ?d' 1) = [10, 10]"
    by (simp add: checkout_mixed_db items_of_def)
  moreover have "map o_total_amount (orders ?d') = [20]"
    by (simp add: checkout_mixed_db)
  ultimately show ?thesis by simp
qed

section \<open>Adding to a cart row that exists\<close>

text \<open>
  Claim C3, at the input where the code departs from it: the product has stock 5, the
  caller's cart holds 3 of it and 3 more are added. \<^verbatim>\<open>add_to_cart\<close> compares only the
  3 of the request with the stock, answers the merged row and stores quantity 6, which
  exceeds the stock.
\<close>

theorem add_to_cart_merge_exceeds_stock:
  "add_to_cart exact_ops cart_db 7 \<lparr>ca_product_id = 1, ca_quantity = 3\<rparr> =
     (Inr \<lparr>cio_id = 1, cio_product_id = 1, cio_product_name = ''P'', cio_unit_price = 10,
           cio_quantity = 6, cio_subtotal = 60\<rparr>,
      \<lparr>products = [\<lparr>p_id = 1, p_name = ''P'', p_description = None, p_price = 10,
                    p_currency = Some ''USD'', p_sku = None, p_stock = Some 5\<rparr>],
       cart_items = [\<lparr>ci_id = 1, ci_user_id = 7, ci_product_id = 1, ci_quantity = 6\<rparr>],
       orders = [], order_items = []\<rparr>) \<and>
   not_enough_stock (Some 5) 6"
  by (simp add: cart_db_eq add_to_cart_def get_Product_def not_enough_stock_def CartItemOut_def
      exact_ops_def)

section \<open>Order items after the catalog changes\<close>

text \<open>
  Claim C4, amended. \<^verbatim>\<open>update_product\<close> changes no order and no order item, whatever
  it does to the product: name snapshot, unit price, quantity, subtotal and the order's
  total stay as they were. A successful \<^verbatim>\<open>delete_product\<close> changes no order either,
  and it keeps the order items of the other products unchanged, but it deletes the order
  items that reference the deleted product.
\<close>

theorem product_changes_and_order_items:
  "(update_product d product_id body = (r, d') \<longrightarrow>
      orders d' = orders d \<and> order_items d' = order_items d) \<and>
   (delete_product d product_id = (Inr u, d'') \<longrightarrow>
      orders d'' = orders d \<and>
      order_items d'' = filter (\<lambda>it. oi_product_id it \<noteq> product_id) (order_items d))"
  by (auto simp: update_product_def delete_product_def Let_def split: option.splits if_splits)

theorem product_changes_and_order_items_witness:
  "map p_price (products (snd (update_product sold_db 1 pricier_P))) = [99] \<and>
   order_items (snd (update_product sold_db 1 pricier_P)) = order_items sold_db \<and>
   map o_total_amount (orders (snd (update_product sold_db 1 pricier_P))) = [30] \<and>
   orders (snd (delete_product sold_db 1)) = orders sold_db \<and>
   order_items (snd (delete_product sold_db 1)) =
     filter (\<lambda>it. oi_product_id it \<noteq> 1) (order_items sold_db)"
proof -
  note w = product_changes_and_order_items
    [of sold_db 1 pricier_P "fst (update_product sold_db 1 pricier_P)"
        "snd (update_product sold_db 1 pricier_P)" "()" "snd (delete_product sold_db 1)"]
  from w have kept: "orders (snd (update_product sold_db 1 pricier_P)) = orders sold_db"
    "order_items (snd (update_product sold_db 1 pricier_P)) = order_items sold_db"
    by simp_all
  have deleted: "delete_product sold_db 1 = (Inr (), snd (delete_product sold_db 1))"
    by (simp add: delete_sold_db)
  with w have gone: "orders (snd (delete_product sold_db 1)) = orders sold_db"
    "order_items (snd (delete_product sold_db 1)) =
       filter (\<lambda>it. oi_product_id it \<noteq> 1) (order_items sold_db)"
    by simp_all
  have price: "map p_price (products (snd (update_product sold_db 1 pricier_P))) = [99]"
    by (simp add: update_sold_db)
  have total: "map o_total_amount (orders sold_db) = [30]"
    by (simp add: sold_db_eq)
  from kept gone price total show ?thesis by simp
qed

text \<open>
  The order item of the sold product does not outlive the product: after the deletion the
  order is still there with its total of 30, and it has no item left.
\<close>

theorem delete_product_counterexample:
  "order_items sold_db =
     [\<lparr>oi_id = 1, oi_order_id = 1, oi_product_id = 1, oi_name_snapshot = ''P'',
       oi_unit_price = 10, oi_quantity = 3, oi_subtotal = 30\<rparr>] \<and>
   fst (delete_product sold_db 1) = Inr () \<and>
   order_items (snd (delete_product sold_db 1)) = [] \<and>
   map o_total_amount (orders (snd (delete_product sold_db 1))) = [30]"
  by (simp add: delete_sold_db) (simp add: sold_db_eq)

section \<open>Stock is not negative\<close>

text \<open>
  Claim C5, amended. The stock is never negative over every sequence of requests in which
  each product creation and update stores a stock of at least 0 (the schema accepts any
  integer and stores it as sent): from a database whose tracked stocks are all at least 0,
  every tracked stock stays at least 0. A successful \<^verbatim>\<open>checkout\<close> changes nothing of
  the products but the stock, and reduces the stock of each product by the quantity of
  each of the caller's cart rows for it, floored at zero: a tracked stock \<open>s\<close> becomes
  \<open>max 0 (s - q)\<close>, an untracked one stays untracked.
\<close>

theorem stock_never_negative:
  "(stock_nonneg d \<and> list_all stock_request_ok reqs \<longrightarrow> stock_nonneg (run F g d reqs)) \<and>
   (checkout F g d uid = (Inr out, d') \<longrightarrow>
      products d' =
        map (\<lambda>r. fold reduce_stock
                    (map ci_quantity (filter (\<lambda>c. ci_product_id c = p_id r) (cart_of d uid))) r)
          (products d)) \<and>
   reduce_stock q r = r\<lparr>p_stock := map_option (\<lambda>s. max 0 (s - q)) (p_stock r)\<rparr>"
proof -
  have "products d' =
        map (\<lambda>r. fold reduce_stock
                    (map ci_quantity (filter (\<lambda>c. ci_product_id c = p_id r) (cart_of d uid))) r)
          (products d)"
    if ok: "checkout F g d uid = (Inr out, d')"
  proof -
    from checkout_success [OF ok] obtain tot cur d2 where
      i: "checkout_items F (next_id (map o_id (orders d))) (cart_of d uid)
            (d\<lparr>orders := orders d @ [placed_order d uid tot cur]\<rparr>) = Inr d2" and
      ps: "products d' = products d2"
      by blast
    from checkout_items_products [OF i] ps show ?thesis by simp
  qed
  moreover have "reduce_stock q r = r\<lparr>p_stock := map_option (\<lambda>s. max 0 (s - q)) (p_stock r)\<rparr>"
    by (simp add: reduce_stock_def split: option.splits)
  ultimately show ?thesis
    by (simp add: run_stock_nonneg)
qed

theorem stock_never_negative_witness:
  "stock_nonneg empty_db \<and>
   list_all stock_request_ok
     [CreateProduct product_P, AddToCart 7 \<lparr>ca_product_id = 1, ca_quantity = 3\<rparr>, Checkout 7] \<and>
   stock_nonneg (run exact_ops invoice_file empty_db
     [CreateProduct product_P, AddToCart 7 \<lparr>ca_product_id = 1, ca_quantity = 3\<rparr>, Checkout 7]) \<and>
   map p_stock (products (snd (checkout exact_ops invoice_file cart_db 7))) = [Some 2]"
proof -
  have a: "stock_nonneg empty_db" by (simp add: stock_nonneg_def empty_db_def)
  have b: "list_all stock_request_ok
     [CreateProduct product_P, AddToCart 7 \<lparr>ca_product_id = 1, ca_quantity = 3\<rparr>, Checkout 7]"
    by (simp add: stock_request_ok_def product_P_def ProductCreate_def)
  from stock_never_negative
    [of empty_db
        "[CreateProduct product_P, AddToCart 7 \<lparr>ca_product_id = 1, ca_quantity = 3\<rparr>, Checkout 7]"
        exact_ops invoice_file]
    a b
  have c: "stock_nonneg (run exact_ops invoice_file empty_db
     [CreateProduct product_P, AddToCart 7 \<lparr>ca_product_id = 1, ca_quantity = 3\<rparr>, Checkout 7])"
    by blast
  from stock_never_negative
    [of cart_db "[]" exact_ops invoice_file 7
        "\<lparr>co_order_id = 1, co_total_amount = 30, co_currency = ''USD'',
          co_invoice_url = ''/orders/1/invoice''\<rparr>"
        "snd (checkout exact_ops invoice_file cart_db 7)" 3
        "\<lparr>p_id = 1, p_name = ''P'', p_description = None, p_price = 10::real,
          p_currency = Some ''USD'', p_sku = None, p_stock = Some 5\<rparr>"]
  have "products (snd (checkout exact_ops invoice_file cart_db 7)) =
        map (\<lambda>r. fold reduce_stock
                    (map ci_quantity (filter (\<lambda>c. ci_product_id c = p_id r) (cart_of cart_db 7))) r)
          (products cart_db)"
    by (simp add: checkout_cart_db)
  then have "map p_stock (products (snd (checkout exact_ops invoice_file cart_db 7))) = [Some 2]"
    by (simp add: cart_db_eq cart_of_def reduce_stock_def)
  with a b c show ?thesis by simp
qed

text \<open>
  A product can be created with a negative stock: the schema takes any integer, and the
  route stores it.
\<close>

theorem create_product_negative_stock_counterexample:
  "create_product empty_db overdrawn_P =
     (Inr \<lparr>p_id = 1, p_name = ''P'', p_description = None, p_price = 10,
           p_currency = Some ''USD'', p_sku = None, p_stock = Some (- 1)\<rparr>,
      \<lparr>products = [\<lparr>p_id = 1, p_name = ''P'', p_description = None, p_price = 10,
                    p_currency = Some ''USD'', p_sku = None, p_stock = Some (- 1)\<rparr>],
       cart_items = [], orders = [], order_items = []\<rparr>) \<and>
   \<not> stock_nonneg (run exact_ops invoice_file empty_db [CreateProduct overdrawn_P])"
  by (simp add: overdrawn_P_def stock_nonneg_def eval_defs)

section \<open>One cart row per user and product\<close>

text \<open>
  Claim C6. No sequence of requests gives a user two cart rows for one product: from a
  database with at most one row per (user, product), every database that a list of
  requests leads to has at most one. A successful \<^verbatim>\<open>add_to_cart\<close> leaves exactly one
  row for the pairing, and its quantity is the quantity the pairing had before (0 when it
  had no row) plus the quantity added; the answer carries that quantity.
\<close>

theorem cart_one_row_per_pairing:
  "(cart_unique d \<longrightarrow>
      cart_unique (run F g d reqs) \<and> length (pairing (run F g d reqs) uid product_id) \<le> 1) \<and>
   (cart_unique d \<and> add_to_cart F d uid item = (Inr out, d') \<longrightarrow>
      (\<exists>c. pairing d' uid (ca_product_id item) = [c] \<and>
           ci_quantity c =
             sum_list (map ci_quantity (pairing d uid (ca_product_id item))) + ca_quantity item \<and>
           cio_quantity out = ci_quantity c))"
proof -
  have "cart_unique (run F g d reqs) \<and> length (pairing (run F g d reqs) uid product_id) \<le> 1"
    if "cart_unique d"
  proof -
    from that have u: "cart_unique (run F g d reqs)" by (rule run_cart_unique)
    then have "length (pairing (run F g d reqs) uid product_id) \<le> 1"
      by (rule cart_unique_pairing)
    with u show ?thesis by simp
  qed
  moreover have "\<exists>c. pairing d' uid (ca_product_id item) = [c] \<and>
           ci_quantity c =
             sum_list (map ci_quantity (pairing d uid (ca_product_id item))) + ca_quantity item \<and>
           cio_quantity out = ci_quantity c"
    if "cart_unique d" "add_to_cart F d uid item = (Inr out, d')"
    using that by (rule add_to_cart_merges)
  ultimately show ?thesis by blast
qed

theorem cart_one_row_per_pairing_witness:
  "cart_unique two_db \<and>
   cart_unique (run exact_ops invoice_file two_db
                  [AddToCart 7 \<lparr>ca_product_id = 1, ca_quantity = 3\<rparr>]) \<and>
   pairing (snd (add_to_cart exact_ops two_db 7 \<lparr>ca_product_id = 1, ca_quantity = 3\<rparr>)) 7 1 =
     [\<lparr>ci_id = 1, ci_user_id = 7, ci_product_id = 1, ci_quantity = 5\<rparr>] \<and>
   sum_list (map ci_quantity (pairing two_db 7 1)) + 3 = 5"
proof -
  let ?item = "\<lparr>ca_product_id = 1, ca_quantity = 3\<rparr>"
  let ?out = "\<lparr>cio_id = 1, cio_product_id = 1, cio_product_name = ''P'', cio_unit_price = 10::real,
                 cio_quantity = 5, cio_subtotal = 50\<rparr>"
  have u: "cart_unique two_db" by (simp add: cart_unique_def two_db_eq)
  have a: "add_to_cart exact_ops two_db 7 ?item =
      (Inr ?out, snd (add_to_cart exact_ops two_db 7 ?item))"
    by (simp add: add_three_two_db)
  note w = cart_one_row_per_pairing
    [of two_db exact_ops invoice_file "[AddToCart 7 ?item]" 7 1 ?item ?out
        "snd (add_to_cart exact_ops two_db 7 ?item)"]
  from w u have r: "cart_unique (run exact_ops invoice_file two_db [AddToCart 7 ?item])"
    by blast
  from w u a obtain c where
    c: "pairing (snd (add_to_cart exact_ops two_db 7 ?item)) 7 (ca_product_id ?item) = [c]"
       "ci_quantity c =
          sum_list (map ci_quantity (pairing two_db 7 (ca_product_id ?item))) + ca_quantity ?item"
       "cio_quantity ?out = ci_quantity c"
    by blast
  have row: "pairing (snd (add_to_cart exact_ops two_db 7 ?item)) 7 1 =
       [\<lparr>ci_id = 1, ci_user_id = 7, ci_product_id = 1, ci_quantity = 5\<rparr>]"
    by (simp add: add_three_two_db pairing_def)
  from c(2,3) have "sum_list (map ci_quantity (pairing two_db 7 1)) + 3 = 5"
    by simp
  with u r row show ?thesis by simp
qed

section \<open>The currency of an order\<close>

text \<open>
  Claim C7, amended. The currency of the order is the currency of the last cart row, in
  processing order, whose product has a currency that is neither \<^verbatim>\<open>None\<close> nor the
  empty string, and "USD" when there is no such row; the order answered and the order
  stored carry the same one. So the last row's currency wins whenever it is non-empty, and
  an empty one leaves the currency of an earlier row in place.
\<close>

theorem checkout_currency_last_nonempty:
  assumes ok: "checkout F g d uid = (Inr out, d')"
  shows "co_currency out = winning_currency (map (product_currency d) (cart_of d uid)) ''USD'' \<and>
         (\<exists>ord. get_Order d' (co_order_id out) = Some ord \<and> o_currency ord = co_currency out) \<and>
         (\<forall>c. product_currency d (last (cart_of d uid)) = Some c \<and> c \<noteq> [] \<longrightarrow>
              co_currency out = c)"
proof -
  let ?oid = "next_id (map o_id (orders d))"
  from checkout_success [OF ok] obtain tot cur path where
    ne: "cart_of d uid \<noteq> []" and
    v: "checkout_validate F d (cart_of d uid) (f_zero F) ''USD'' = Inr (tot, cur)" and
    os: "orders d' = orders d @ [(placed_order d uid tot cur)\<lparr>o_invoice_path := Some path\<rparr>]" and
    out: "co_order_id out = ?oid" "co_currency out = cur"
    by force
  let ?ord = "(placed_order d uid tot cur)\<lparr>o_invoice_path := Some path\<rparr>"
  have cur: "cur = winning_currency (map (product_currency d) (cart_of d uid)) ''USD''"
    using v by (rule checkout_validate_currency)
  have get: "get_Order d' (co_order_id out) = Some ?ord"
    unfolding get_Order_def os out
    by (rule find_append_fresh) (simp_all add: next_id_fresh_map placed_order_def)
  have "o_currency ?ord = co_currency out"
    by (simp add: placed_order_def out)
  with get have stored: "\<exists>ord. get_Order d' (co_order_id out) = Some ord \<and>
      o_currency ord = co_currency out"
    by blast
  have "co_currency out = c"
    if "product_currency d (last (cart_of d uid)) = Some c" "c \<noteq> []" for c
  proof -
    have "last (map (product_currency d) (cart_of d uid)) = Some c"
      using ne that(1) by (simp add: last_map)
    then show ?thesis
      using ne that(2) by (simp add: out cur winning_currency_last)
  qed
  with cur stored out show ?thesis by blast
qed

theorem checkout_currency_last_nonempty_witness:
  "winning_currency (map (product_currency mixed_db) (cart_of mixed_db 7)) ''USD'' = ''EUR'' \<and>
   product_currency cart_db (last (cart_of cart_db 7)) = Some ''USD'' \<and>
   co_currency (projr (fst (checkout exact_ops invoice_file cart_db 7))) = ''USD''"
proof -
  from checkout_currency_last_nonempty [OF checkout_mixed_db]
  have "winning_currency (map (product_currency mixed_db) (cart_of mixed_db 7)) ''USD'' = ''EUR''"
    by simp
  moreover have last: "product_currency cart_db (last (cart_of cart_db 7)) = Some ''USD''"
    by (simp add: cart_db_eq cart_of_def product_currency_def get_Product_def)
  moreover from checkout_currency_last_nonempty [OF checkout_cart_db] last
  have "co_currency (projr (fst (checkout exact_ops invoice_file cart_db 7))) = ''USD''"
    by (simp add: checkout_cart_db)
  ultimately show ?thesis by simp
qed

text \<open>
  Two products, the first in "EUR" and the second with the empty string as its currency:
  the order is in "EUR", the currency of the first row, not in that of the last one.
\<close>

theorem checkout_currency_counterexample:
  "fst (checkout exact_ops invoice_file mixed_db 7) =
     Inr \<lparr>co_order_id = 1, co_total_amount = 20, co_currency = ''EUR'',
          co_invoice_url = ''/orders/1/invoice''\<rparr> \<and>
   map (product_currency mixed_db) (cart_of mixed_db 7) = [Some ''EUR'', Some ''''] \<and>
   product_currency mixed_db (last (cart_of mixed_db 7)) \<noteq> Some ''EUR''"
  by (simp add: checkout_mixed_db)
     (simp add: mixed_db_eq product_currency_def cart_of_def get_Product_def)

section \<open>Rows of other users\<close>

text \<open>
  Claim C8. A caller who asks by id for an order or a cart row of another user gets the
  404 that an id with no row gets: \<^verbatim>\<open>get_order\<close>, \<^verbatim>\<open>download_invoice\<close>,
  \<^verbatim>\<open>remove_cart_item\<close> and \<^verbatim>\<open>update_cart_item\<close> answer the same for the foreign id
  and for the absent one, and the database is left as it was. No route has another answer
  for a row that exists but belongs to someone else.
\<close>

theorem foreign_rows_not_found:
  "(get_Order d i = Some ord \<and> o_user_id ord \<noteq> uid \<and> get_Order d j = None \<longrightarrow>
      get_order d uid i = Inl (HTTPException 404 ''Order not found'') \<and>
      get_order d uid i = get_order d uid j \<and>
      download_invoice path_exists d uid i = download_invoice path_exists d uid j) \<and>
   (get_CartItem d k = Some ci \<and> ci_user_id ci \<noteq> uid \<and> get_CartItem d l = None \<longrightarrow>
      remove_cart_item d uid k = (Inl (HTTPException 404 ''Cart item not found''), d) \<and>
      remove_cart_item d uid k = remove_cart_item d uid l \<and>
      update_cart_item F d uid k quantity = update_cart_item F d uid l quantity)"
  by (simp add: get_order_def download_invoice_def remove_cart_item_def update_cart_item_def)

theorem foreign_rows_not_found_witness:
  "get_Order busy_db 1 \<noteq> None \<and> get_Order busy_db 2 = None \<and>
   get_order busy_db 8 1 = Inl (HTTPException 404 ''Order not found'') \<and>
   get_order busy_db 8 2 = Inl (HTTPException 404 ''Order not found'') \<and>
   get_CartItem busy_db 1 \<noteq> None \<and> get_CartItem busy_db 2 = None \<and>
   remove_cart_item busy_db 8 1 = (Inl (HTTPException 404 ''Cart item not found''), busy_db) \<and>
   remove_cart_item busy_db 8 2 = (Inl (HTTPException 404 ''Cart item not found''), busy_db)"
proof -
  have ord: "get_Order busy_db 1 =
      Some \<lparr>o_id = 1, o_user_id = 7, o_total_amount = 30, o_currency = ''USD'',
            o_status = ''PAID'', o_invoice_path = Some ''./invoices/invoice_order_1.pdf''\<rparr>"
    and no_ord: "get_Order busy_db 2 = None"
    by (simp_all add: busy_db_eq get_Order_def)
  have row: "get_CartItem busy_db 1 =
      Some \<lparr>ci_id = 1, ci_user_id = 7, ci_product_id = 1, ci_quantity = 2\<rparr>"
    and no_row: "get_CartItem busy_db 2 = None"
    by (simp_all add: busy_db_eq get_CartItem_def)
  from foreign_rows_not_found
    [of busy_db 1 "\<lparr>o_id = 1, o_user_id = 7, o_total_amount = 30, o_currency = ''USD'',
                      o_status = ''PAID'',
                      o_invoice_path = Some ''./invoices/invoice_order_1.pdf''\<rparr>" 8 2
        "\<lambda>_. True" 1 "\<lparr>ci_id = 1, ci_user_id = 7, ci_product_id = 1, ci_quantity = 2\<rparr>" 2
        exact_ops 1]
    ord no_ord row no_row
  show ?thesis by auto
qed

section \<open>The cart after checkout\<close>

text \<open>
  Claim C9. After a successful \<^verbatim>\<open>checkout\<close> the caller has no cart row, and
  \<^verbatim>\<open>view_cart\<close> answers the empty list.
\<close>

theorem checkout_clears_cart:
  assumes "checkout F g d uid = (Inr out, d')"
  shows "cart_of d' uid = [] \<and> view_cart F d' uid = Inr []"
proof -
  from checkout_success [OF assms] have
    "cart_items d' = filter (\<lambda>c. ci_user_id c \<noteq> uid) (cart_items d)"
    by blast
  then have "cart_of d' uid = []"
    by (simp add: cart_of_def)
  then show ?thesis by (simp add: view_cart_def)
qed

theorem checkout_clears_cart_witness:
  "cart_of (snd (checkout exact_ops invoice_file cart_db 7)) 7 = [] \<and>
   view_cart exact_ops (snd (checkout exact_ops invoice_file cart_db 7)) 7 = Inr []"
  using checkout_clears_cart [OF checkout_cart_db]
  by (simp add: checkout_cart_db)

section \<open>Updating a product\<close>

lemma update_product_stored:
  assumes "update_product d product_id body = (Inr p', d')"
  shows "get_Product d' product_id = Some p' \<and>
         (\<exists>p. get_Product d product_id = Some p \<and> p' = set_fields (ProductCreate body) p)"
proof -
  from assms obtain p where p: "get_Product d product_id = Some p"
    by (auto simp: update_product_def split: option.splits)
  with assms have ok: "\<not> sku_taken (products d) product_id (pc_sku (ProductCreate body))"
    and p': "p' = set_fields (ProductCreate body) p"
    and d': "d' = d\<lparr>products :=
        map (\<lambda>r. if p_id r = product_id then set_fields (ProductCreate body) r else r) (products d)\<rparr>"
    by (auto simp: update_product_def Let_def split: if_splits)
  have "p_id p = product_id" using p by (rule get_Product_id)
  moreover have "find (\<lambda>r. p_id r = product_id)
      (map (\<lambda>r. if p_id r = product_id then set_fields (ProductCreate body) r else r) (products d))
    = map_option (\<lambda>r. if p_id r = product_id then set_fields (ProductCreate body) r else r)
        (find (\<lambda>r. p_id r = product_id) (products d))"
    by (rule find_map_keep) (simp add: set_fields_def)
  ultimately have "get_Product d' product_id = Some p'"
    using p p' d' by (simp add: get_Product_def)
  with p p' show ?thesis by simp
qed

text \<open>
  Claim C10. A successful \<^verbatim>\<open>update_product\<close> stores the request's value in every
  field of the product, and the schema default where the body leaves the field out: stock
  0, currency "USD", no description and no sku. Nothing of the previous row remains except
  its id; a body with only a name and a price sets the stock to 0.
\<close>

theorem update_product_replaces_all_fields:
  assumes "update_product d product_id body = (Inr p', d')"
  shows "get_Product d' product_id = Some p' \<and>
         p' = \<lparr>p_id = product_id,
               p_name = b_name body,
               p_description = (case b_description body of Omitted \<Rightarrow> None | Given v \<Rightarrow> v),
               p_price = b_price body,
               p_currency = Some (case b_currency body of Omitted \<Rightarrow> ''USD'' | Given v \<Rightarrow> v),
               p_sku = (case b_sku body of Omitted \<Rightarrow> None | Given v \<Rightarrow> v),
               p_stock = Some (case b_stock body of Omitted \<Rightarrow> 0 | Given v \<Rightarrow> v)\<rparr>"
proof -
  from update_product_stored [OF assms] obtain p where
    stored: "get_Product d' product_id = Some p'" and
    p: "get_Product d product_id = Some p" and
    p': "p' = set_fields (ProductCreate body) p"
    by blast
  have "p_id p = product_id" using p by (rule get_Product_id)
  then have "p' = \<lparr>p_id = product_id,
               p_name = b_name body,
               p_description = (case b_description body of Omitted \<Rightarrow> None | Given v \<Rightarrow> v),
               p_price = b_price body,
               p_currency = Some (case b_currency body of Omitted \<Rightarrow> ''USD'' | Given v \<Rightarrow> v),
               p_sku = (case b_sku body of Omitted \<Rightarrow> None | Given v \<Rightarrow> v),
               p_stock = Some (case b_stock body of Omitted \<Rightarrow> 0 | Given v \<Rightarrow> v)\<rparr>"
    unfolding p' by (cases p) (simp add: set_fields_def ProductCreate_def split: field.splits)
  with stored show ?thesis by simp
qed

theorem update_product_replaces_all_fields_witness:
  "update_product stocked_db 1 name_and_price =
     (Inr \<lparr>p_id = 1, p_name = ''Q'', p_description = None, p_price = 12,
           p_currency = Some ''USD'', p_sku = None, p_stock = Some 0\<rparr>,
      \<lparr>products = [\<lparr>p_id = 1, p_name = ''Q'', p_description = None, p_price = 12,
                    p_currency = Some ''USD'', p_sku = None, p_stock = Some 0\<rparr>],
       cart_items = [], orders = [], order_items = []\<rparr>) \<and>
   get_Product
     \<lparr>products = [\<lparr>p_id = 1, p_name = ''Q'', p_description = None, p_price = 12,
                   p_currency = Some ''USD'', p_sku = None, p_stock = Some 0\<rparr>],
      cart_items = [], orders = [], order_items = []\<rparr> 1 =
     Some \<lparr>p_id = 1, p_name = ''Q'', p_description = None, p_price = 12::real,
           p_currency = Some ''USD'', p_sku = None, p_stock = Some (0::int)\<rparr>"
  using update_name_and_price update_product_replaces_all_fields [OF update_name_and_price]
  by blast

end
